theory Spec2Isabelle
  imports Main "HOL-Library.Word"
begin

section \<open>JavaScript values and objects\<close>

text \<open>
  The values that flow through source options, TileJSON documents and worker results.
  Numbers are the integers that TileJSON zoom levels, tile sizes and HTTP status codes
  are; plain objects nested inside a value are association lists.
\<close>

datatype jsval =
    JUndefined
  | JNull
  | JBool bool
  | JNum int
  | JStr string
  | JArr "jsval list"
  | JObj "(string \<times> jsval) list"

text \<open>JavaScript truthiness, as tested by \<^verbatim>\<open>if (options.url)\<close> and \<^verbatim>\<open>data && data.resourceTiming\<close>.\<close>

fun truthy :: "jsval \<Rightarrow> bool" where
  "truthy JUndefined = False"
| "truthy JNull = False"
| "truthy (JBool b) = b"
| "truthy (JNum n) = (n \<noteq> 0)"
| "truthy (JStr s) = (s \<noteq> [])"
| "truthy (JArr xs) = True"
| "truthy (JObj kvs) = True"

text \<open>
  A top-level object (options, a TileJSON document, the public properties of a source)
  is a map from property names to values. A key bound to \<open>JUndefined\<close> is present
  (\<^verbatim>\<open>k in obj\<close> holds) with the value \<^verbatim>\<open>undefined\<close>.
\<close>

type_synonym jsobj = "string \<rightharpoonup> jsval"

text \<open>Property read \<^verbatim>\<open>obj.k\<close>: a missing key reads as \<^verbatim>\<open>undefined\<close>.\<close>

definition get :: "jsobj \<Rightarrow> string \<Rightarrow> jsval" where
  "get obj k = (case obj k of None \<Rightarrow> JUndefined | Some v \<Rightarrow> v)"

text \<open>
  Modelled from the spec: \<^verbatim>\<open>extend\<close> and \<^verbatim>\<open>pick\<close> of \<^verbatim>\<open>util/util.js\<close> are imported by both
  source files but are not among them. \<^verbatim>\<open>extend(dest, src)\<close> copies every property of
  \<^verbatim>\<open>src\<close> onto \<^verbatim>\<open>dest\<close> (the spec: "merges fetched fields with explicit options (explicit
  wins)", "explicit source options override same-named fetched fields");
  \<^verbatim>\<open>pick(src, keys)\<close> keeps the properties of \<^verbatim>\<open>src\<close> whose key is listed (the spec's
  "recognized keys"). Every record declares a constant \<open>extend\<close> of its own, so the
  function is named \<open>extend_obj\<close>.
\<close>

definition extend_obj :: "jsobj \<Rightarrow> jsobj \<Rightarrow> jsobj" where
  "extend_obj dest src = dest ++ src"

definition pick :: "jsobj \<Rightarrow> string list \<Rightarrow> jsobj" where
  "pick src properties = (\<lambda>k. if k \<in> set properties then src k else None)"

section \<open>The vector tile source\<close>

text \<open>
  \<^verbatim>\<open>class VectorTileSource\<close> of \<^verbatim>\<open>src/source/vector_tile_source.js\<close>. The public properties
  that \<^verbatim>\<open>extend(this, ...)\<close> writes by name (\<^verbatim>\<open>id\<close>, \<^verbatim>\<open>type\<close>, \<^verbatim>\<open>minzoom\<close>, \<^verbatim>\<open>maxzoom\<close>, \<^verbatim>\<open>scheme\<close>,
  \<^verbatim>\<open>tileSize\<close>, \<^verbatim>\<open>zoomoffset\<close>, \<^verbatim>\<open>url\<close>, \<^verbatim>\<open>promoteId\<close>, \<^verbatim>\<open>tiles\<close>, ...) live in the object
  \<open>props\<close>; the private members are record fields, a leading underscore written \<open>u_\<close>.
\<close>

datatype exception = Error string | TypeError

text \<open>An actor is named by its number; the dispatcher's pool state is opaque.\<close>

type_synonym actor_id = nat

record dispatcher =
  ready :: bool
  pool :: nat

text \<open>A cancelable handle of a metadata request (\<^verbatim>\<open>getJSON\<close> or \<^verbatim>\<open>browser.frame\<close>).\<close>

type_synonym handle = nat

text \<open>
  A callback is either one that a caller passed in (\<open>Cb n\<close>) or the arrow function
  that \<^verbatim>\<open>load\<close> of the source with the given id creates (\<open>LoadClosure\<close>). A completion
  closure created inside \<^verbatim>\<open>loadTile\<close> is named by what it captures: the tile's uid and
  the caller's callback.
\<close>

datatype callback = Cb nat | LoadClosure jsval

type_synonym waiter = "nat \<times> callback"

text \<open>
  Modelled from the spec: \<^verbatim>\<open>DedupedRequest\<close> of \<^verbatim>\<open>vector_tile_worker_source.js\<close> is not among
  the source files. The spec's Deduplication Entry is "keyed by request URL; holds the
  set of waiting callbacks"; a fresh table has no entry.
\<close>

type_synonym deduped_request = "string \<rightharpoonup> waiter list"

record source =
  props :: jsobj
  dispatcher :: dispatcher
  u_options :: jsobj
  u_collectResourceTiming :: jsval
  u_tileJSONRequest :: "handle option"
  u_loaded :: bool
  u_tileWorkers :: "string \<rightharpoonup> actor_id"
  u_deduped :: deduped_request
  tileBounds :: "(jsval \<times> jsval \<times> jsval) option"

definition source_defaults :: "string \<Rightarrow> jsobj" where
  "source_defaults ident =
     [''id'' \<mapsto> JStr ident,
      ''type'' \<mapsto> JStr ''vector'',
      ''minzoom'' \<mapsto> JNum 0,
      ''maxzoom'' \<mapsto> JNum 22,
      ''scheme'' \<mapsto> JStr ''xyz'',
      ''tileSize'' \<mapsto> JNum 512,
      ''zoomoffset'' \<mapsto> JNum 0,
      ''reparseOverscaled'' \<mapsto> JBool True,
      ''isTileClipped'' \<mapsto> JBool True]"

text \<open>
  The constructor. \<^verbatim>\<open>this.tileSize !== 512\<close> is strict inequality with the number 512:
  any other value of the property, of any type, throws.
\<close>

definition constructor :: "string \<Rightarrow> jsobj \<Rightarrow> dispatcher \<Rightarrow> exception + source" where
  "constructor ident options disp =
     (let this_props = extend_obj (source_defaults ident)
                         (pick options [''url'', ''scheme'', ''tileSize'', ''promoteId'', ''zoomoffset''])
      in if get this_props ''tileSize'' \<noteq> JNum 512
         then Inl (Error ''vector tile sources must have a tileSize of 512'')
         else Inr \<lparr> props = this_props,
                    dispatcher = disp,
                    u_options = extend_obj [''type'' \<mapsto> JStr ''vector''] options,
                    u_collectResourceTiming = get options ''collectResourceTiming'',
                    u_tileJSONRequest = None,
                    u_loaded = False,
                    u_tileWorkers = Map.empty,
                    u_deduped = Map.empty,
                    tileBounds = None \<rparr>)"

section \<open>Tiles, worker messages and effects\<close>

text \<open>
  \<^verbatim>\<open>Tile\<close> (\<^verbatim>\<open>tile.js\<close>) and \<^verbatim>\<open>OverscaledTileID\<close> (\<^verbatim>\<open>tile_id.js\<close>) are declared elsewhere; these
  are the members that \<^verbatim>\<open>vector_tile_source.js\<close> reads and writes. \<open>state\<close> is the string
  the code compares with \<^verbatim>\<open>'expired'\<close> and \<^verbatim>\<open>'loading'\<close>.
\<close>

record overscaled_tile_id =
  overscaledZ :: int
  wrap :: int
  canonical :: "int \<times> int \<times> int"

datatype cancelable = ActorRequest actor_id string | InlineRequest string

record tile =
  uid :: nat
  tileID :: overscaled_tile_id
  tileZoom :: int
  isSymbolTile :: jsval
  state :: string
  actor :: "actor_id option"
  request :: "cancelable option"
  aborted :: bool
  reloadCallback :: "callback option"
  resourceTiming :: jsval

record js_error =
  message :: string
  status :: jsval

datatype resource_type = RT_Tile | RT_Source

record request_parameters =
  rp_url :: string
  rp_collectResourceTiming :: jsval

text \<open>What the inline fetch hands back, and the three members the closure copies from it.\<close>

record load_vector_tile_result =
  lv_rawData :: "8 word list"
  lv_cacheControl :: jsval
  lv_expires :: jsval
  lv_resourceTiming :: jsval

record preloaded =
  cacheControl :: jsval
  expires :: jsval
  rawData :: "8 word list"

text \<open>
  The message payload \<^verbatim>\<open>params\<close>. \<open>p_tileSize\<close> keeps the two factors of
  \<^verbatim>\<open>this.tileSize * tile.tileID.overscaleFactor()\<close>.
\<close>

record params =
  p_request :: request_parameters
  p_data :: "preloaded option"
  p_uid :: nat
  p_tileID :: overscaled_tile_id
  p_tileZoom :: int
  p_zoom :: int
  p_tileSize :: "jsval \<times> int"
  p_type :: jsval
  p_source :: jsval
  p_pixelRatio :: jsval
  p_showCollisionBoxes :: jsval
  p_promoteId :: jsval
  p_isSymbolTile :: jsval

text \<open>
  Calls that leave the coordinator, in the order the code makes them:
  \<^item> \<open>EvSend a type params (uid, cb) mustQueue\<close>: \<^verbatim>\<open>actor.send(type, params, done.bind(this), undefined, mustQueue)\<close>
    on actor \<open>a\<close>, where \<^verbatim>\<open>done\<close> is the completion handler of tile \<open>uid\<close> and callback \<open>cb\<close>;
  \<^item> \<open>EvLoadVectorTile params (uid, cb)\<close>: \<^verbatim>\<open>loadVectorTile.call({deduped: this._deduped}, params, ..., true)\<close>;
  \<^item> \<open>EvFetch request\<close>: the deduplication table starts a network fetch;
  \<^item> \<open>EvCallback cb err\<close>: \<^verbatim>\<open>callback(err)\<close>;
  \<^item> the calls on the tile, on the tile request cache, on the metadata fetcher, on the
    animation frame, on the source caches and on the event emitter.
\<close>

datatype event =
    EvSend actor_id string params waiter bool
  | EvLoadVectorTile params waiter
  | EvFetch request_parameters
  | EvCallback callback "js_error option"
  | EvSetExpiryData nat jsobj
  | EvLoadVectorData nat "jsobj option"
  | EvCacheEntryPossiblyAdded
  | EvGetJSON request_parameters handle
  | EvFrame handle
  | EvCancel handle
  | EvClearTiles nat
  | EvFire string "(string \<times> string) list"
  | EvFireError js_error
  | EvPostTurnstile jsval jsval

text \<open>
  The collaborators that are imported but not defined in the source files: the map and its
  request manager (the source is attached to one by \<^verbatim>\<open>onAdd\<close>), the style's source caches,
  the browser, the dispatcher's \<^verbatim>\<open>getActor\<close> (it returns an actor and moves the pool on),
  the tile id's URL templating and \<^verbatim>\<open>overscaleFactor\<close>, and the tile's own methods.
  \<^verbatim>\<open>Tile.setExpiryData\<close> and \<^verbatim>\<open>Tile.loadVectorData\<close> are recorded as calls; of their effect on
  the tile only the state after \<^verbatim>\<open>loadVectorData\<close> is kept, as the parameter
  \<open>loadVectorData\<close>: the members that the coordinator owns (\<^verbatim>\<open>actor\<close>, \<^verbatim>\<open>request\<close>, \<^verbatim>\<open>aborted\<close>,
  \<^verbatim>\<open>reloadCallback\<close>, \<^verbatim>\<open>resourceTiming\<close>) are written by the code modelled here and by the
  source cache that sets \<^verbatim>\<open>aborted\<close> and \<^verbatim>\<open>state\<close> between calls.
\<close>

record env =
  normalizeTileURL :: "string \<Rightarrow> string"
  canonical_url :: "int \<times> int \<times> int \<Rightarrow> jsval \<Rightarrow> jsval \<Rightarrow> jsval \<Rightarrow> string"
  transformRequest :: "string \<Rightarrow> resource_type \<Rightarrow> request_parameters"
  normalizeSourceURL :: "jsval \<Rightarrow> string"
  canonicalizeTileset :: "jsobj \<Rightarrow> jsval \<Rightarrow> jsval"
  customAccessToken :: jsval
  overscaleFactor :: "overscaled_tile_id \<Rightarrow> int"
  devicePixelRatio :: jsval
  showCollisionBoxes :: jsval
  refreshExpiredTiles :: bool
  getSourceCaches :: "jsval \<Rightarrow> nat list"
  getActor :: "dispatcher \<Rightarrow> actor_id \<times> nat"
  loadVectorData :: "tile \<Rightarrow> jsobj option \<Rightarrow> string"

section \<open>The deduplication table\<close>

text \<open>
  Modelled from the spec: \<^verbatim>\<open>loadVectorTile\<close> and \<^verbatim>\<open>DedupedRequest.request\<close> of
  \<^verbatim>\<open>vector_tile_worker_source.js\<close> are not among the source files. The spec (4.2): "If
  key has no active entry, starts fetchFn, stores the handle, and registers the callback
  as sole waiter. If an entry exists, appends callback to the waiter set"; the key is
  "the final tile URL".
\<close>

definition loadVectorTile :: "deduped_request \<Rightarrow> params \<Rightarrow> waiter \<Rightarrow> deduped_request \<times> event list" where
  "loadVectorTile deduped ps w =
     (let key = rp_url (p_request ps)
      in case deduped key of
           None \<Rightarrow> (deduped(key \<mapsto> [w]), [EvLoadVectorTile ps w, EvFetch (p_request ps)])
         | Some ws \<Rightarrow> (deduped(key \<mapsto> ws @ [w]), [EvLoadVectorTile ps w]))"

section \<open>Tile acquisition\<close>

text \<open>The local \<^verbatim>\<open>url\<close> and the object \<^verbatim>\<open>params\<close> that \<^verbatim>\<open>loadTile\<close> builds first.\<close>

definition tile_url :: "env \<Rightarrow> source \<Rightarrow> tile \<Rightarrow> string" where
  "tile_url e src t =
     normalizeTileURL e
       (canonical_url e (canonical (tileID t)) (get (props src) ''tiles'')
          (get (props src) ''scheme'') (get (props src) ''zoomoffset''))"

definition tile_params :: "env \<Rightarrow> source \<Rightarrow> tile \<Rightarrow> params" where
  "tile_params e src t =
     \<lparr> p_request = (transformRequest e (tile_url e src t) RT_Tile)
                     \<lparr> rp_collectResourceTiming := u_collectResourceTiming src \<rparr>,
       p_data = None,
       p_uid = uid t,
       p_tileID = tileID t,
       p_tileZoom = tileZoom t,
       p_zoom = overscaledZ (tileID t),
       p_tileSize = (get (props src) ''tileSize'', overscaleFactor e (tileID t)),
       p_type = get (props src) ''type'',
       p_source = get (props src) ''id'',
       p_pixelRatio = devicePixelRatio e,
       p_showCollisionBoxes = showCollisionBoxes e,
       p_promoteId = get (props src) ''promoteId'',
       p_isSymbolTile = isSymbolTile t \<rparr>"

text \<open>
  \<^verbatim>\<open>loadTile(tile, callback)\<close> up to the point where it returns: the three branches on
  \<^verbatim>\<open>tile.actor\<close> and \<^verbatim>\<open>tile.state\<close>. The completion handlers run later and are the functions
  \<open>done_handler\<close> and \<open>inline_loaded\<close> below. The last branch is reached only with
  an actor bound, so its \<open>None\<close> case is never taken.
\<close>

definition loadTile :: "env \<Rightarrow> source \<Rightarrow> tile \<Rightarrow> callback \<Rightarrow> source \<times> tile \<times> event list" where
  "loadTile e src t cb =
     (let url = tile_url e src t;
          ps = tile_params e src t
      in if actor t = None \<or> state t = ''expired'' then
           (let (a, p) = (case u_tileWorkers src url of
                            Some a \<Rightarrow> (a, pool (dispatcher src))
                          | None \<Rightarrow> getActor e (dispatcher src));
                src1 = src\<lparr> u_tileWorkers := (u_tileWorkers src)(url \<mapsto> a),
                            dispatcher := (dispatcher src)\<lparr> pool := p \<rparr> \<rparr>;
                t1 = t\<lparr> actor := Some a \<rparr>
            in if \<not> ready (dispatcher src1) then
                 (let (dd, evs) = loadVectorTile (u_deduped src1) ps (uid t, cb)
                  in (src1\<lparr> u_deduped := dd \<rparr>,
                      t1\<lparr> request := Some (InlineRequest (rp_url (p_request ps))) \<rparr>,
                      evs))
               else (src1,
                     t1\<lparr> request := Some (ActorRequest a ''loadTile'') \<rparr>,
                     [EvSend a ''loadTile'' ps (uid t, cb) True]))
         else if state t = ''loading'' then
           (src, t\<lparr> reloadCallback := Some cb \<rparr>, [])
         else
           (case actor t of
              Some a \<Rightarrow> (src,
                         t\<lparr> request := Some (ActorRequest a ''reloadTile'') \<rparr>,
                         [EvSend a ''reloadTile'' ps (uid t, cb) False])
            | None \<Rightarrow> (src, t, [])))"

text \<open>\<^verbatim>\<open>err && err.status !== 404\<close>.\<close>

definition propagated :: "js_error option \<Rightarrow> bool" where
  "propagated err = (case err of None \<Rightarrow> False | Some er \<Rightarrow> status er \<noteq> JNum 404)"

text \<open>
  The success path of \<^verbatim>\<open>done\<close> up to \<^verbatim>\<open>callback(null)\<close>: the tile after the resource-timing
  assignment and \<^verbatim>\<open>tile.loadVectorData(data, ...)\<close>, and the calls made.
\<close>

definition with_resource_timing :: "tile \<Rightarrow> jsobj option \<Rightarrow> tile" where
  "with_resource_timing t dat =
     (case dat of
        None \<Rightarrow> t
      | Some d \<Rightarrow> if truthy (get d ''resourceTiming'')
                  then t\<lparr> resourceTiming := get d ''resourceTiming'' \<rparr>
                  else t)"

definition materialised :: "env \<Rightarrow> tile \<Rightarrow> jsobj option \<Rightarrow> tile" where
  "materialised e t dat =
     (with_resource_timing t dat)\<lparr> state := loadVectorData e (with_resource_timing t dat) dat \<rparr>"

definition success_events :: "env \<Rightarrow> tile \<Rightarrow> callback \<Rightarrow> jsobj option \<Rightarrow> event list" where
  "success_events e t cb dat =
     (case dat of
        None \<Rightarrow> []
      | Some d \<Rightarrow> if refreshExpiredTiles e then [EvSetExpiryData (uid t) d] else [])
     @ [EvLoadVectorData (uid t) dat, EvCacheEntryPossiblyAdded, EvCallback cb None]"

text \<open>
  The completion handler \<^verbatim>\<open>done(err, data)\<close> of the call \<^verbatim>\<open>loadTile(tile, callback)\<close>, run on
  the source and the tile as they are when the completion arrives (\<^verbatim>\<open>done\<close> is a keyword of
  the proof language, hence the longer name). The caller's callback is opaque: calling it
  is recorded, what it does in turn is not part of the coordinator.
\<close>

definition done_handler :: "env \<Rightarrow> source \<Rightarrow> tile \<Rightarrow> callback \<Rightarrow> js_error option \<Rightarrow> jsobj option
                           \<Rightarrow> source \<times> tile \<times> event list" where
  "done_handler e src t cb err dat =
     (let t1 = t\<lparr> request := None \<rparr>
      in if aborted t1 then (src, t1, [EvCallback cb None])
         else if propagated err then (src, t1, [EvCallback cb err])
         else
           (let t3 = materialised e t1 dat;
                evs = success_events e t1 cb dat
            in case reloadCallback t3 of
                 None \<Rightarrow> (src, t3, evs)
               | Some rcb \<Rightarrow>
                   (let (src1, t4, evs1) = loadTile e src t3 rcb
                    in (src1, t4\<lparr> reloadCallback := None \<rparr>, evs @ evs1))))"

text \<open>
  The closure passed to \<^verbatim>\<open>loadVectorTile\<close> on the worker-cold path, with the \<^verbatim>\<open>params\<close> it
  captured.
\<close>

definition inline_loaded :: "env \<Rightarrow> source \<Rightarrow> tile \<Rightarrow> callback \<Rightarrow> params \<Rightarrow> js_error option
                            \<Rightarrow> load_vector_tile_result option \<Rightarrow> source \<times> tile \<times> event list" where
  "inline_loaded e src t cb ps err dat =
     (case dat of
        None \<Rightarrow> done_handler e src t cb err None
      | Some d \<Rightarrow>
          if err \<noteq> None then done_handler e src t cb err None
          else
            (let ps1 = ps\<lparr> p_data := Some \<lparr> cacheControl = lv_cacheControl d,
                                            expires = lv_expires d,
                                            rawData = lv_rawData d \<rparr> \<rparr>
             in case actor t of
                  Some a \<Rightarrow> (src, t, [EvSend a ''loadTile'' ps1 (uid t, cb) True])
                | None \<Rightarrow> (src, t, [])))"

section \<open>The metadata loader\<close>

text \<open>\<^verbatim>\<open>layer.id\<close> for one element of \<^verbatim>\<open>vector_layers\<close>: reading a property of \<^verbatim>\<open>null\<close> or
  \<^verbatim>\<open>undefined\<close> throws, any other value without the property reads \<^verbatim>\<open>undefined\<close>.\<close>

fun layer_id :: "jsval \<Rightarrow> jsval option" where
  "layer_id (JObj kvs) = Some (case map_of kvs ''id'' of None \<Rightarrow> JUndefined | Some v \<Rightarrow> v)"
| "layer_id JUndefined = None"
| "layer_id JNull = None"
| "layer_id v = Some JUndefined"

definition tilejson_keys :: "string list" where
  "tilejson_keys = [''tiles'', ''minzoom'', ''maxzoom'', ''attribution'', ''mapbox_logo'',
                    ''bounds'', ''scheme'', ''tileSize'', ''encoding'', ''zoomoffset'']"

text \<open>
  The inner function \<^verbatim>\<open>loaded(err, tileJSON)\<close> of \<^verbatim>\<open>load_tilejson.js\<close>. Its value is the
  call it makes on \<^verbatim>\<open>callback\<close>: \<open>Inr None\<close> when it makes none, \<open>Inl\<close> when
  \<^verbatim>\<open>result.vectorLayers.map\<close> throws because \<^verbatim>\<open>vector_layers\<close> is truthy and not an array of
  objects. \<^verbatim>\<open>extend(tileJSON, options)\<close> writes into \<^verbatim>\<open>tileJSON\<close> itself, so \<^verbatim>\<open>vector_layers\<close>
  is read from the merged object.
\<close>

type_synonym invocation = "js_error option \<times> jsobj option"

definition loaded :: "env \<Rightarrow> jsobj \<Rightarrow> js_error option \<Rightarrow> jsobj option \<Rightarrow> exception + invocation option" where
  "loaded e options err tileJSON =
     (case err of
        Some er \<Rightarrow> Inr (Some (Some er, None))
      | None \<Rightarrow>
          (case tileJSON of
             None \<Rightarrow> Inr None
           | Some tj \<Rightarrow>
               (let merged = extend_obj tj options;
                    result = pick merged tilejson_keys;
                    deliver = (\<lambda>r. Inr (Some (None,
                                 Some (r(''tiles'' \<mapsto> canonicalizeTileset e r (get options ''url''))))))
                in if truthy (get merged ''vector_layers'') then
                     (case get merged ''vector_layers'' of
                        JArr layers \<Rightarrow>
                          (case those (map layer_id layers) of
                             None \<Rightarrow> Inl TypeError
                           | Some ids \<Rightarrow>
                               deliver (result(''vectorLayers'' \<mapsto> JArr layers,
                                               ''vectorLayerIds'' \<mapsto> JArr ids)))
                      | _ \<Rightarrow> Inl TypeError)
                   else deliver result)))"

text \<open>
  Modelled from the spec: \<^verbatim>\<open>getJSON\<close> (\<^verbatim>\<open>util/ajax.js\<close>) and \<^verbatim>\<open>browser.frame\<close>
  (\<^verbatim>\<open>util/browser.js\<close>) are not among the source files. Each "returns a cancelable
  handle; cancellation before completion must suppress the callback"; \<^verbatim>\<open>browser.frame\<close> runs
  its function "on the next animation-frame boundary", \<^verbatim>\<open>getJSON\<close> runs its callback when
  the response arrives. The runtime keeps the tasks that are scheduled and not yet run or
  cancelled, each under the handle that was returned for it.
\<close>

datatype task =
    FrameTask jsobj callback
  | FetchTask jsobj request_parameters callback

record runtime =
  pending :: "handle \<rightharpoonup> task"
  nextHandle :: handle

definition getJSON :: "runtime \<Rightarrow> request_parameters \<Rightarrow> jsobj \<Rightarrow> callback \<Rightarrow> handle \<times> runtime \<times> event list" where
  "getJSON rt req options cb =
     (let h = nextHandle rt
      in (h, rt\<lparr> pending := (pending rt)(h \<mapsto> FetchTask options req cb), nextHandle := Suc h \<rparr>,
          [EvGetJSON req h]))"

definition frame :: "runtime \<Rightarrow> jsobj \<Rightarrow> callback \<Rightarrow> handle \<times> runtime \<times> event list" where
  "frame rt options cb =
     (let h = nextHandle rt
      in (h, rt\<lparr> pending := (pending rt)(h \<mapsto> FrameTask options cb), nextHandle := Suc h \<rparr>,
          [EvFrame h]))"

definition cancel :: "handle \<Rightarrow> runtime \<Rightarrow> runtime" where
  "cancel h rt = rt\<lparr> pending := (pending rt)(h := None) \<rparr>"

text \<open>The default export of \<^verbatim>\<open>load_tilejson.js\<close>: which of the two it schedules.\<close>

definition loadTileJSON :: "env \<Rightarrow> runtime \<Rightarrow> jsobj \<Rightarrow> callback \<Rightarrow> handle \<times> runtime \<times> event list" where
  "loadTileJSON e rt options cb =
     (if truthy (get options ''url'')
      then getJSON rt (transformRequest e (normalizeSourceURL e (get options ''url'')) RT_Source) options cb
      else frame rt options cb)"

text \<open>
  The scheduled work runs: the animation frame of handle \<open>h\<close> arrives, or the response
  \<open>(err, tileJSON)\<close> of the fetch of handle \<open>h\<close>. Nothing runs for a handle that is not
  pending. The value names the callback and what \<open>loaded\<close> calls it with.
\<close>

definition frame_arrives :: "env \<Rightarrow> runtime \<Rightarrow> handle
                             \<Rightarrow> runtime \<times> (callback \<times> (exception + invocation option)) option" where
  "frame_arrives e rt h =
     (case pending rt h of
        Some (FrameTask options cb) \<Rightarrow> (cancel h rt, Some (cb, loaded e options None (Some options)))
      | _ \<Rightarrow> (rt, None))"

definition response_arrives :: "env \<Rightarrow> runtime \<Rightarrow> handle \<Rightarrow> js_error option \<Rightarrow> jsobj option
                                \<Rightarrow> runtime \<times> (callback \<times> (exception + invocation option)) option" where
  "response_arrives e rt h err tileJSON =
     (case pending rt h of
        Some (FetchTask options req cb) \<Rightarrow> (cancel h rt, Some (cb, loaded e options err tileJSON))
      | _ \<Rightarrow> (rt, None))"

section \<open>The source lifecycle\<close>

text \<open>\<^verbatim>\<open>load()\<close>, and the arrow function it passes to \<^verbatim>\<open>loadTileJSON\<close>.\<close>

definition load :: "env \<Rightarrow> source \<times> runtime \<Rightarrow> source \<times> runtime \<times> event list" where
  "load e w =
     (let src1 = (fst w)\<lparr> u_loaded := False \<rparr>;
          (h, rt1, evs) = loadTileJSON e (snd w) (u_options src1) (LoadClosure (get (props src1) ''id''))
      in (src1\<lparr> u_tileJSONRequest := Some h \<rparr>, rt1,
          EvFire ''dataloading'' [(''dataType'', ''source'')] # evs))"

definition load_closure :: "env \<Rightarrow> source \<Rightarrow> js_error option \<Rightarrow> jsobj option \<Rightarrow> source \<times> event list" where
  "load_closure e src err tileJSON =
     (let src1 = src\<lparr> u_tileJSONRequest := None, u_loaded := True \<rparr>
      in case err of
           Some er \<Rightarrow> (src1, [EvFireError er])
         | None \<Rightarrow>
             (case tileJSON of
                None \<Rightarrow> (src1, [])
              | Some tj \<Rightarrow>
                  (let src2 = src1\<lparr> props := extend_obj (props src1) tj \<rparr>;
                       src3 = (if truthy (get tj ''bounds'')
                               then src2\<lparr> tileBounds := Some (get tj ''bounds'',
                                                               get (props src2) ''minzoom'',
                                                               get (props src2) ''maxzoom'') \<rparr>
                               else src2)
                   in (src3,
                       [EvPostTurnstile (get tj ''tiles'') (customAccessToken e),
                        EvFire ''data'' [(''dataType'', ''source''), (''sourceDataType'', ''metadata'')],
                        EvFire ''data'' [(''dataType'', ''source''), (''sourceDataType'', ''content'')]]))))"

text \<open>\<^verbatim>\<open>setSourceProperty(callback)\<close>, \<^verbatim>\<open>setTiles(tiles)\<close> and \<^verbatim>\<open>setUrl(url)\<close>.\<close>

definition setSourceProperty :: "env \<Rightarrow> (source \<Rightarrow> source) \<Rightarrow> source \<times> runtime
                                 \<Rightarrow> source \<times> runtime \<times> event list" where
  "setSourceProperty e f w =
     (let (rt1, ev_cancel) = (case u_tileJSONRequest (fst w) of
                                Some h \<Rightarrow> (cancel h (snd w), [EvCancel h])
                              | None \<Rightarrow> (snd w, []));
          src1 = f (fst w);
          ev_clear = map EvClearTiles (getSourceCaches e (get (props src1) ''id''));
          (src2, rt2, ev_load) = load e (src1, rt1)
      in (src2, rt2, ev_cancel @ ev_clear @ ev_load))"

definition setTiles :: "env \<Rightarrow> jsval \<Rightarrow> source \<times> runtime \<Rightarrow> source \<times> runtime \<times> event list" where
  "setTiles e tiles w =
     setSourceProperty e (\<lambda>s. s\<lparr> u_options := (u_options s)(''tiles'' \<mapsto> tiles) \<rparr>) w"

definition setUrl :: "env \<Rightarrow> jsval \<Rightarrow> source \<times> runtime \<Rightarrow> source \<times> runtime \<times> event list" where
  "setUrl e url w =
     setSourceProperty e (\<lambda>s. s\<lparr> props := (props s)(''url'' \<mapsto> url),
                                  u_options := (u_options s)(''url'' \<mapsto> url) \<rparr>) w"

text \<open>
  A scheduled metadata task runs while the source is attached: when its callback is the
  source's own arrow function and \<open>loaded\<close> calls it, the arrow function runs on the
  source. An exception inside \<open>loaded\<close> leaves the source as it is.
\<close>

definition apply_completion :: "env \<Rightarrow> source \<Rightarrow> (callback \<times> (exception + invocation option)) option
                                \<Rightarrow> source \<times> event list" where
  "apply_completion e src r =
     (case r of
        Some (LoadClosure i, Inr (Some (err, tileJSON))) \<Rightarrow>
          if i = get (props src) ''id'' then load_closure e src err tileJSON else (src, [])
      | _ \<Rightarrow> (src, []))"

definition source_frame_arrives :: "env \<Rightarrow> source \<times> runtime \<Rightarrow> handle \<Rightarrow> source \<times> runtime \<times> event list" where
  "source_frame_arrives e w h =
     (let (rt1, r) = frame_arrives e (snd w) h;
          (src1, evs) = apply_completion e (fst w) r
      in (src1, rt1, evs))"

definition source_response_arrives :: "env \<Rightarrow> source \<times> runtime \<Rightarrow> handle \<Rightarrow> js_error option \<Rightarrow> jsobj option
                                       \<Rightarrow> source \<times> runtime \<times> event list" where
  "source_response_arrives e w h err tileJSON =
     (let (rt1, r) = response_arrives e (snd w) h err tileJSON;
          (src1, evs) = apply_completion e (fst w) r
      in (src1, rt1, evs))"

section \<open>Reference points for the properties\<close>

text \<open>
  "The resolved tileSize": the explicit \<^verbatim>\<open>tileSize\<close> option if the options carry one,
  otherwise the default 512; and the same reading for any other defaulted property.
\<close>

definition option_or_default :: "jsobj \<Rightarrow> string \<Rightarrow> jsval \<Rightarrow> jsval" where
  "option_or_default options k d = (case options k of Some v \<Rightarrow> v | None \<Rightarrow> d)"

definition resolved_tileSize :: "jsobj \<Rightarrow> jsval" where
  "resolved_tileSize options = option_or_default options ''tileSize'' (JNum 512)"

text \<open>A concrete dispatcher and concrete collaborators, for evaluating the code on examples.\<close>

definition demo_dispatcher :: dispatcher where
  "demo_dispatcher = \<lparr> ready = True, pool = 0 \<rparr>"

definition demo_env :: env where
  "demo_env =
     \<lparr> normalizeTileURL = (\<lambda>u. u),
       canonical_url = (\<lambda>c tiles scheme zo. ''https://tiles.example/1/0/0.mvt''),
       transformRequest = (\<lambda>u rt. \<lparr> rp_url = u, rp_collectResourceTiming = JUndefined \<rparr>),
       normalizeSourceURL = (\<lambda>v. case v of JStr s \<Rightarrow> s | _ \<Rightarrow> []),
       canonicalizeTileset = (\<lambda>r u. get r ''tiles''),
       customAccessToken = JUndefined,
       overscaleFactor = (\<lambda>i. 1),
       devicePixelRatio = JNum 1,
       showCollisionBoxes = JBool False,
       refreshExpiredTiles = True,
       getSourceCaches = (\<lambda>i. [0, 1]),
       getActor = (\<lambda>d. (pool d, Suc (pool d))),
       loadVectorData = (\<lambda>t d. ''loaded'') \<rparr>"

definition demo_source :: source where
  "demo_source =
     \<lparr> props = source_defaults ''streets'',
       dispatcher = demo_dispatcher,
       u_options = [''type'' \<mapsto> JStr ''vector'', ''url'' \<mapsto> JStr ''mapbox://mapbox.mapbox-streets-v6''],
       u_collectResourceTiming = JBool False,
       u_tileJSONRequest = None,
       u_loaded = True,
       u_tileWorkers = Map.empty,
       u_deduped = Map.empty,
       tileBounds = None \<rparr>"

text \<open>A tile that has never been dispatched: no actor, no request, in its first state.\<close>

definition demo_tile :: tile where
  "demo_tile =
     \<lparr> uid = 7,
       tileID = \<lparr> overscaledZ = 1, wrap = 0, canonical = (1, 0, 0) \<rparr>,
       tileZoom = 1,
       isSymbolTile = JUndefined,
       state = ''loading'',
       actor = None,
       request = None,
       aborted = False,
       reloadCallback = None,
       resourceTiming = JUndefined \<rparr>"

definition not_found :: js_error where
  "not_found = \<lparr> message = ''Not Found'', status = JNum 404 \<rparr>"

definition server_error :: js_error where
  "server_error = \<lparr> message = ''Internal Server Error'', status = JNum 500 \<rparr>"

text \<open>
  Kinds of outgoing call: any worker message; a fresh dispatch (a \<^verbatim>\<open>loadTile\<close> message or the
  inline \<^verbatim>\<open>loadVectorTile\<close> call); a call that puts a raw tile fetch on the network (the
  table starting one, or a \<^verbatim>\<open>loadTile\<close> message without preloaded data, which the worker
  answers by fetching: "the worker will skip the network request if the data is already
  there", and \<^verbatim>\<open>reloadTile\<close> is "revalidation, not raw refetch"); a request made for a
  tile (a worker message or the inline \<^verbatim>\<open>loadVectorTile\<close> call); a call of a callback.
\<close>

fun is_send :: "event \<Rightarrow> bool" where
  "is_send (EvSend a ty ps w q) = True"
| "is_send ev = False"

fun is_fresh_dispatch :: "event \<Rightarrow> bool" where
  "is_fresh_dispatch (EvSend a ty ps w q) = (ty = ''loadTile'')"
| "is_fresh_dispatch (EvLoadVectorTile ps w) = True"
| "is_fresh_dispatch ev = False"

fun is_network_fetch :: "event \<Rightarrow> bool" where
  "is_network_fetch (EvSend a ty ps w q) = (ty = ''loadTile'' \<and> p_data ps = None)"
| "is_network_fetch (EvFetch req) = True"
| "is_network_fetch ev = False"

fun is_tile_request :: "event \<Rightarrow> bool" where
  "is_tile_request (EvSend a ty ps w q) = True"
| "is_tile_request (EvLoadVectorTile ps w) = True"
| "is_tile_request ev = False"

fun is_callback :: "event \<Rightarrow> bool" where
  "is_callback (EvCallback cb err) = True"
| "is_callback ev = False"

text \<open>The spec's example of metadata precedence, with one more fetched field.\<close>

definition explicit_minzoom :: jsobj where
  "explicit_minzoom = [''minzoom'' \<mapsto> JNum 3]"

definition fetched_zooms :: jsobj where
  "fetched_zooms = [''minzoom'' \<mapsto> JNum 0, ''maxzoom'' \<mapsto> JNum 14, ''name'' \<mapsto> JStr ''streets'']"

text \<open>
  The actor that the first branch of \<^verbatim>\<open>loadTile\<close> binds, with the pool state afterwards:
  \<^verbatim>\<open>this._tileWorkers[url] || this.dispatcher.getActor()\<close>.
\<close>

definition assigned_actor :: "env \<Rightarrow> source \<Rightarrow> tile \<Rightarrow> actor_id \<times> nat" where
  "assigned_actor e src t =
     (case u_tileWorkers src (tile_url e src t) of
        Some a \<Rightarrow> (a, pool (dispatcher src))
      | None \<Rightarrow> getActor e (dispatcher src))"

text \<open>The demo tile once a \<^verbatim>\<open>loadTile\<close> message for it is with actor 0.\<close>

definition in_flight_tile :: tile where
  "in_flight_tile = demo_tile\<lparr> actor := Some 0, request := Some (ActorRequest 0 ''loadTile'') \<rparr>"

text \<open>More example states: a source whose dispatcher is not ready, the demo tile bound to
  actor 0 and loaded, or expired, or loading with a reload queued, and an inline fetch result.\<close>

definition cold_source :: source where
  "cold_source = demo_source\<lparr> dispatcher := \<lparr> ready = False, pool = 0 \<rparr> \<rparr>"

definition loaded_tile :: tile where
  "loaded_tile = demo_tile\<lparr> actor := Some 0, state := ''loaded'' \<rparr>"

definition expired_tile :: tile where
  "expired_tile = demo_tile\<lparr> actor := Some 0, state := ''expired'' \<rparr>"

definition demo_raw :: load_vector_tile_result where
  "demo_raw = \<lparr> lv_rawData = [26, 3], lv_cacheControl = JStr ''max-age=60'',
                 lv_expires = JUndefined, lv_resourceTiming = JUndefined \<rparr>"


section \<open>Running the coordinator on one tile\<close>

text \<open>
  The entry points that act on a tile, as actions: a \<^verbatim>\<open>loadTile\<close> call, a worker's answer
  reaching the completion handler that was passed to \<^verbatim>\<open>actor.send\<close>, and the inline fetch
  reaching the closure that was passed to \<^verbatim>\<open>loadVectorTile\<close>. A completion exists only for a
  request that was issued: the world keeps, besides the source, the tile and the calls made
  so far, the requests that were issued and not yet answered, and a \<open>Done\<close> or
  \<open>InlineLoaded\<close> for a callback is possible only while a worker message, or an inline
  request, carrying that callback for this tile is among them. It answers the oldest such
  request, which is thereby no longer outstanding; the inline closure runs with the
  \<^verbatim>\<open>params\<close> of the request it answers. \<open>step\<close> is \<open>None\<close> for a completion that no
  outstanding request can produce, and so is \<open>run\<close> for a sequence containing one.
\<close>

datatype action =
    Load callback
  | Done callback "js_error option" "jsobj option"
  | InlineLoaded callback "js_error option" "load_vector_tile_result option"

type_synonym world = "source \<times> tile \<times> event list \<times> event list"

fun awaiting_send :: "waiter \<Rightarrow> event \<Rightarrow> bool" where
  "awaiting_send w (EvSend a ty ps w' q) = (w' = w)"
| "awaiting_send w ev = False"

fun awaiting_inline :: "waiter \<Rightarrow> event \<Rightarrow> bool" where
  "awaiting_inline w (EvLoadVectorTile ps w') = (w' = w)"
| "awaiting_inline w ev = False"

text \<open>The world after an entry point has run: its calls are appended to the calls made, and
  the requests among them to the outstanding requests.\<close>

definition proceed :: "event list \<Rightarrow> event list \<Rightarrow> source \<times> tile \<times> event list \<Rightarrow> world" where
  "proceed evs out r =
     (case r of (src1, t1, ev1) \<Rightarrow> (src1, t1, evs @ ev1, out @ filter is_tile_request ev1))"

fun step :: "env \<Rightarrow> world \<Rightarrow> action \<Rightarrow> world option" where
  "step e (src, t, evs, out) (Load cb) = Some (proceed evs out (loadTile e src t cb))"
| "step e (src, t, evs, out) (Done cb err dat) =
     (case find (awaiting_send (uid t, cb)) out of
        None \<Rightarrow> None
      | Some r \<Rightarrow> Some (proceed evs (remove1 r out) (done_handler e src t cb err dat)))"
| "step e (src, t, evs, out) (InlineLoaded cb err raw) =
     (case find (awaiting_inline (uid t, cb)) out of
        Some (EvLoadVectorTile ps w) \<Rightarrow>
          Some (proceed evs (remove1 (EvLoadVectorTile ps w) out) (inline_loaded e src t cb ps err raw))
      | _ \<Rightarrow> None)"

fun run :: "env \<Rightarrow> world \<Rightarrow> action list \<Rightarrow> world option" where
  "run e w [] = Some w"
| "run e w (a # acts) = (case step e w a of None \<Rightarrow> None | Some w1 \<Rightarrow> run e w1 acts)"

text \<open>
  Two \<^verbatim>\<open>loadTile\<close> calls followed by the completions of both: with the dispatcher ready, the
  worker answers the first call and then the second; with the dispatcher not ready, the
  inline fetch of the first call succeeds before the worker answers.
\<close>

definition hot_overlap :: "callback \<Rightarrow> callback \<Rightarrow> js_error option \<Rightarrow> jsobj option
                          \<Rightarrow> js_error option \<Rightarrow> jsobj option \<Rightarrow> action list" where
  "hot_overlap cb1 cb2 err1 d1 err2 d2 = [Load cb1, Load cb2, Done cb1 err1 d1, Done cb2 err2 d2]"




text \<open>For contrast, collaborators whose \<^verbatim>\<open>loadVectorData\<close> leaves every tile \<^verbatim>\<open>'loading'\<close>.\<close>

definition stuck_env :: env where
  "stuck_env = demo_env\<lparr> loadVectorData := (\<lambda>t d. ''loading'') \<rparr>"

section \<open>Vocabulary for the metadata properties\<close>

text \<open>
  \<^verbatim>\<open>vector_layers\<close> of a document is usable by \<^verbatim>\<open>loaded\<close>: it is falsy (or absent), or an array
  none of whose elements is \<^verbatim>\<open>null\<close> or \<^verbatim>\<open>undefined\<close>. A call that puts a request on the network;
  a call that schedules the metadata load.
\<close>

definition layers_well_formed :: "jsobj \<Rightarrow> bool" where
  "layers_well_formed obj =
     (case get obj ''vector_layers'' of
        JArr layers \<Rightarrow> those (map layer_id layers) \<noteq> None
      | v \<Rightarrow> \<not> truthy v)"


definition is_metadata_request :: "event \<Rightarrow> bool" where
  "is_metadata_request ev = (case ev of EvGetJSON req h \<Rightarrow> True | EvFrame h \<Rightarrow> True | _ \<Rightarrow> False)"



definition loading_source :: source where
  "loading_source = demo_source\<lparr> u_loaded := False, u_tileJSONRequest := Some 0 \<rparr>"

definition busy_runtime :: runtime where
  "busy_runtime =
     \<lparr> pending = [0 \<mapsto> FetchTask (u_options demo_source)
                         \<lparr> rp_url = ''mapbox://mapbox.mapbox-streets-v6'', rp_collectResourceTiming = JUndefined \<rparr>
                         (LoadClosure (JStr ''streets''))],
       nextHandle = 1 \<rparr>"

section \<open>Helper lemmas: objects\<close>

lemma ctor_props_tileSize:
  "get (extend_obj (source_defaults ident)
          (pick options [''url'', ''scheme'', ''tileSize'', ''promoteId'', ''zoomoffset''])) ''tileSize''
   = resolved_tileSize options"
  by (simp add: get_def extend_obj_def pick_def source_defaults_def resolved_tileSize_def
           option_or_default_def map_add_def
           split: option.splits)

lemma extend_obj_self [simp]: "extend_obj obj obj = obj"
  by (auto simp: extend_obj_def map_add_def split: option.splits)

lemma pick_tilejson_key:
  "k \<in> set tilejson_keys \<Longrightarrow> pick (extend_obj tj options) tilejson_keys k
     = (case options k of Some v \<Rightarrow> Some v | None \<Rightarrow> tj k)"
  by (simp add: pick_def extend_obj_def map_add_def)

lemma pick_other_key:
  "k \<notin> set tilejson_keys \<Longrightarrow> pick obj tilejson_keys k = None"
  by (simp add: pick_def)

lemma loaded_cases:
  assumes "loaded e options None (Some tj) = Inr (Some call)"
  shows "\<exists>r. call = (None, Some (r(''tiles'' \<mapsto> canonicalizeTileset e r (get options ''url''))))
           \<and> (\<forall>k. k \<noteq> ''vectorLayers'' \<and> k \<noteq> ''vectorLayerIds'' \<longrightarrow>
                    r k = pick (extend_obj tj options) tilejson_keys k)"
  using assms
  by (auto simp: loaded_def Let_def split: if_splits jsval.splits option.splits)

lemma loaded_without_layers:
  "\<not> truthy (get (extend_obj tj options) ''vector_layers'') \<Longrightarrow>
   loaded e options None (Some tj)
     = Inr (Some (None, Some ((pick (extend_obj tj options) tilejson_keys)
                   (''tiles'' \<mapsto> canonicalizeTileset e (pick (extend_obj tj options) tilejson_keys)
                                    (get options ''url'')))))"
  by (simp add: loaded_def Let_def)

lemma loaded_reaches_callback:
  "(\<exists>r. loaded e options None (Some tj) = Inr (Some (None, Some r)))
     \<longleftrightarrow> layers_well_formed (extend_obj tj options)"
proof (cases "get (extend_obj tj options) ''vector_layers''")
  case (JArr layers)
  then show ?thesis
    by (cases "those (map layer_id layers)")
       (simp_all add: loaded_def Let_def layers_well_formed_def)
qed (simp_all add: loaded_def Let_def layers_well_formed_def)


section \<open>Helper lemmas: tile acquisition\<close>

lemma loadTile_loading:
  "actor t \<noteq> None \<Longrightarrow> state t = ''loading'' \<Longrightarrow>
   loadTile e src t cb = (src, t\<lparr> reloadCallback := Some cb \<rparr>, [])"
  by (auto simp: loadTile_def Let_def)

lemma loadTile_reload:
  "actor t = Some a \<Longrightarrow> state t \<noteq> ''loading'' \<Longrightarrow> state t \<noteq> ''expired'' \<Longrightarrow>
   loadTile e src t cb
     = (src, t\<lparr> request := Some (ActorRequest a ''reloadTile'') \<rparr>,
        [EvSend a ''reloadTile'' (tile_params e src t) (uid t, cb) False])"
  by (simp add: loadTile_def Let_def)

lemma loadTile_fresh_ready:
  "actor t = None \<or> state t = ''expired'' \<Longrightarrow> ready (dispatcher src) \<Longrightarrow>
   loadTile e src t cb
     = (src\<lparr> u_tileWorkers := (u_tileWorkers src)(tile_url e src t \<mapsto> fst (assigned_actor e src t)),
             dispatcher := (dispatcher src)\<lparr> pool := snd (assigned_actor e src t) \<rparr> \<rparr>,
        t\<lparr> actor := Some (fst (assigned_actor e src t)),
           request := Some (ActorRequest (fst (assigned_actor e src t)) ''loadTile'') \<rparr>,
        [EvSend (fst (assigned_actor e src t)) ''loadTile'' (tile_params e src t) (uid t, cb) True])"
  by (auto simp: loadTile_def Let_def assigned_actor_def split: prod.splits option.splits)

lemma loadTile_fresh_cold:
  "actor t = None \<or> state t = ''expired'' \<Longrightarrow> \<not> ready (dispatcher src) \<Longrightarrow>
   loadTile e src t cb
     = (src\<lparr> u_tileWorkers := (u_tileWorkers src)(tile_url e src t \<mapsto> fst (assigned_actor e src t)),
             dispatcher := (dispatcher src)\<lparr> pool := snd (assigned_actor e src t) \<rparr>,
             u_deduped := fst (loadVectorTile (u_deduped src) (tile_params e src t) (uid t, cb)) \<rparr>,
        t\<lparr> actor := Some (fst (assigned_actor e src t)),
           request := Some (InlineRequest (rp_url (p_request (tile_params e src t)))) \<rparr>,
        snd (loadVectorTile (u_deduped src) (tile_params e src t) (uid t, cb)))"
  by (auto simp: loadTile_def Let_def assigned_actor_def split: prod.splits option.splits)

lemma loadTile_binds_actor: "actor (fst (snd (loadTile e src t cb))) \<noteq> None"
  by (auto simp: loadTile_def Let_def split: prod.splits option.splits)

lemma loadTile_keeps_state: "state (fst (snd (loadTile e src t cb))) = state t"
  by (auto simp: loadTile_def Let_def split: prod.splits option.splits)

lemma loadTile_keeps_timing: "resourceTiming (fst (snd (loadTile e src t cb))) = resourceTiming t"
  by (auto simp: loadTile_def Let_def split: prod.splits option.splits)

lemma loadVectorTile_events:
  "ev \<in> set (snd (loadVectorTile dd ps w)) \<Longrightarrow> \<not> is_send ev \<and> \<not> is_callback ev"
  by (auto simp: loadVectorTile_def Let_def split: option.splits)

lemma loadTile_no_callback:
  "ev \<in> set (snd (snd (loadTile e src t cb))) \<Longrightarrow> \<not> is_callback ev"
  by (auto simp: loadTile_def Let_def loadVectorTile_def split: prod.splits option.splits if_splits)

lemma materialised_fields [simp]:
  "reloadCallback (materialised e t dat) = reloadCallback t"
  "request (materialised e t dat) = request t"
  "actor (materialised e t dat) = actor t"
  "aborted (materialised e t dat) = aborted t"
  "uid (materialised e t dat) = uid t"
  "state (materialised e t dat) = loadVectorData e (with_resource_timing t dat) dat"
  by (simp_all add: materialised_def with_resource_timing_def split: option.splits)

lemma materialised_timing_no_data [simp]:
  "resourceTiming (materialised e t None) = resourceTiming t"
  by (simp add: materialised_def with_resource_timing_def)

lemma done_aborted:
  "aborted t \<Longrightarrow> done_handler e src t cb err dat = (src, t\<lparr> request := None \<rparr>, [EvCallback cb None])"
  by (simp add: done_handler_def Let_def)

lemma done_propagated:
  "\<not> aborted t \<Longrightarrow> propagated err \<Longrightarrow>
   done_handler e src t cb err dat = (src, t\<lparr> request := None \<rparr>, [EvCallback cb err])"
  by (simp add: done_handler_def Let_def)

lemma done_success_plain:
  "\<not> aborted t \<Longrightarrow> \<not> propagated err \<Longrightarrow> reloadCallback t = None \<Longrightarrow>
   done_handler e src t cb err dat
     = (src, materialised e (t\<lparr> request := None \<rparr>) dat, success_events e (t\<lparr> request := None \<rparr>) cb dat)"
  by (simp add: done_handler_def Let_def)

lemma done_success_reissue:
  "\<not> aborted t \<Longrightarrow> \<not> propagated err \<Longrightarrow> reloadCallback t = Some rcb \<Longrightarrow>
   done_handler e src t cb err dat
     = (fst (loadTile e src (materialised e (t\<lparr> request := None \<rparr>) dat) rcb),
        (fst (snd (loadTile e src (materialised e (t\<lparr> request := None \<rparr>) dat) rcb)))\<lparr> reloadCallback := None \<rparr>,
        success_events e (t\<lparr> request := None \<rparr>) cb dat
          @ snd (snd (loadTile e src (materialised e (t\<lparr> request := None \<rparr>) dat) rcb)))"
  by (simp add: done_handler_def Let_def split: prod.splits)

lemma done_ignores_request:
  "done_handler e src (t\<lparr> request := r \<rparr>) cb err dat = done_handler e src t cb err dat"
  by (simp add: done_handler_def Let_def)

lemma success_events_callbacks:
  "filter is_callback (success_events e t cb dat) = [EvCallback cb None]"
  by (simp add: success_events_def split: option.splits)

lemma loadTile_callbacks:
  "filter is_callback (snd (snd (loadTile e src t cb))) = []"
  using loadTile_no_callback [of _ e src t cb] by (simp add: filter_empty_conv)

lemma done_not_fatal_callbacks:
  "\<not> aborted t \<Longrightarrow> \<not> propagated err \<Longrightarrow>
   filter is_callback (snd (snd (done_handler e src t cb err dat))) = [EvCallback cb None]"
  by (cases "reloadCallback t")
     (simp_all add: done_success_plain done_success_reissue success_events_callbacks loadTile_callbacks)

lemma propagated_simps [simp]:
  "propagated None = False"
  "propagated (Some er) = (status er \<noteq> JNum 404)"
  by (simp_all add: propagated_def)

lemma done_404_as_success:
  "status er = JNum 404 \<Longrightarrow> done_handler e src t cb (Some er) dat = done_handler e src t cb None dat"
  by (simp add: done_handler_def Let_def)

lemma done_no_data_timing:
  "\<not> propagated err \<Longrightarrow> resourceTiming (fst (snd (done_handler e src t cb err None))) = resourceTiming t"
  by (cases "reloadCallback t"; cases "aborted t")
     (simp_all add: done_aborted done_success_plain done_success_reissue loadTile_keeps_timing)

lemma loadVectorTile_has_call:
  "EvLoadVectorTile ps w \<in> set (snd (loadVectorTile dd ps w))"
  by (simp add: loadVectorTile_def Let_def split: option.splits)

lemma loadVectorTile_fetch_iff:
  "EvFetch (p_request ps) \<in> set (snd (loadVectorTile dd ps w)) \<longleftrightarrow> dd (rp_url (p_request ps)) = None"
  by (auto simp: loadVectorTile_def Let_def split: option.splits)

lemma loadVectorTile_registers:
  "\<exists>ws. fst (loadVectorTile dd ps w) (rp_url (p_request ps)) = Some (ws @ [w])"
  by (auto simp: loadVectorTile_def Let_def split: option.splits)

lemma inline_loaded_failure:
  "err \<noteq> None \<or> raw = None \<Longrightarrow>
   inline_loaded e src t cb ps err raw = done_handler e src t cb err None"
  by (auto simp: inline_loaded_def split: option.splits)

lemma inline_loaded_success:
  "actor t = Some a \<Longrightarrow>
   inline_loaded e src t cb ps None (Some d)
     = (src, t, [EvSend a ''loadTile''
                   (ps\<lparr> p_data := Some \<lparr> cacheControl = lv_cacheControl d, expires = lv_expires d,
                                         rawData = lv_rawData d \<rparr> \<rparr>) (uid t, cb) True])"
  by (simp add: inline_loaded_def Let_def)

lemma done_no_reload_no_send:
  "reloadCallback t = None \<Longrightarrow> ev \<in> set (snd (snd (done_handler e src t cb err dat))) \<Longrightarrow> \<not> is_send ev"
  by (cases "aborted t"; cases "propagated err")
     (auto simp: done_aborted done_propagated done_success_plain success_events_def split: option.splits if_splits)

section \<open>Helper lemmas: overlapping loads\<close>




text \<open>No completion without a request: nothing outstanding, nothing to answer.\<close>

lemma step_needs_request:
  "step e (src, t, evs, []) (Done cb err dat) = None"
  "step e (src, t, evs, []) (InlineLoaded cb err raw) = None"
  by simp_all

lemma with_resource_timing_fields [simp]:
  "reloadCallback (with_resource_timing t dat) = reloadCallback t"
  "request (with_resource_timing t dat) = request t"
  "actor (with_resource_timing t dat) = actor t"
  "aborted (with_resource_timing t dat) = aborted t"
  "uid (with_resource_timing t dat) = uid t"
  "state (with_resource_timing t dat) = state t"
  by (simp_all add: with_resource_timing_def split: option.splits)

lemma success_events_requests [simp]:
  "filter is_tile_request (success_events e t cb dat) = []"
  "filter is_network_fetch (success_events e t cb dat) = []"
  by (simp_all add: success_events_def split: option.splits)


lemma tile_params_no_data [simp]: "p_data (tile_params e src t) = None"
  by (simp add: tile_params_def)






lemma demo_first_load:
  "loadTile demo_env demo_source demo_tile (Cb 1)
     = (demo_source\<lparr> u_tileWorkers := [''https://tiles.example/1/0/0.mvt'' \<mapsto> 0],
                     dispatcher := \<lparr> ready = True, pool = 1 \<rparr> \<rparr>,
        in_flight_tile,
        [EvSend 0 ''loadTile'' (tile_params demo_env demo_source demo_tile) (7, Cb 1) True])"
  by (simp add: loadTile_def Let_def demo_tile_def demo_source_def demo_env_def demo_dispatcher_def
        in_flight_tile_def tile_url_def)

text \<open>
  Where \<^verbatim>\<open>loadVectorData\<close> leaves the tile \<^verbatim>\<open>'loading'\<close>, the re-issued \<^verbatim>\<open>loadTile\<close> only writes
  the slot that is cleared right after it, no request carries the second callback, and the
  second completion cannot happen.
\<close>

lemma hot_overlap_needs_settling:
  "run stuck_env (demo_source, demo_tile, [], []) (hot_overlap (Cb 1) (Cb 2) None None None None) = None"
  by (simp add: hot_overlap_def stuck_env_def demo_env_def demo_source_def demo_tile_def demo_dispatcher_def
        loadTile_def done_handler_def Let_def proceed_def tile_url_def materialised_def
        with_resource_timing_def success_events_def propagated_def)

lemma run_loads_while_loading:
  "actor t \<noteq> None \<Longrightarrow> state t = ''loading'' \<Longrightarrow>
   run e (src, t, evs, out) (map Load cbs)
     = Some (src, t\<lparr> reloadCallback := (if cbs = [] then reloadCallback t else Some (last cbs)) \<rparr>,
             evs, out)"
proof (induction cbs arbitrary: t)
  case Nil
  then show ?case by simp
next
  case (Cons cb cbs)
  have s: "loadTile e src t cb = (src, t\<lparr> reloadCallback := Some cb \<rparr>, [])"
    using Cons.prems by (simp add: loadTile_loading)
  have "run e (src, t, evs, out) (map Load (cb # cbs))
          = run e (src, t\<lparr> reloadCallback := Some cb \<rparr>, evs, out) (map Load cbs)"
    by (simp add: s proceed_def)
  also have "\<dots> = Some (src, t\<lparr> reloadCallback := Some cb \<rparr>
                          \<lparr> reloadCallback := (if cbs = [] then reloadCallback (t\<lparr> reloadCallback := Some cb \<rparr>)
                                                else Some (last cbs)) \<rparr>, evs, out)"
    using Cons.prems by (intro Cons.IH) simp_all
  finally show ?case by simp
qed

lemma loadTile_one_request:
  "length (filter is_tile_request (snd (snd (loadTile e src t cb)))) \<le> 1"
  by (auto simp: loadTile_def Let_def loadVectorTile_def split: prod.splits option.splits)

lemma loads_one_request:
  assumes "state t = ''loading''"
  shows "\<exists>src1 t1 evs1 out1.
           run e (src, t, [], []) (map Load cbs) = Some (src1, t1, evs1, out1)
         \<and> length (filter is_tile_request evs1) \<le> 1 \<and> length out1 \<le> 1"
proof (cases cbs)
  case Nil
  then show ?thesis by simp
next
  case (Cons cb rest)
  obtain src1 t1 ev1 where s: "loadTile e src t cb = (src1, t1, ev1)"
    by (cases "loadTile e src t cb") auto
  have a: "actor t1 \<noteq> None" "state t1 = ''loading''"
    using loadTile_binds_actor [of e src t cb] loadTile_keeps_state [of e src t cb] assms
    by (simp_all add: s)
  have "run e (src, t, [], []) (map Load cbs)
          = run e (src1, t1, ev1, filter is_tile_request ev1) (map Load rest)"
    by (simp add: Cons s proceed_def)
  also have "\<dots> = Some (src1, t1\<lparr> reloadCallback := (if rest = [] then reloadCallback t1 else Some (last rest)) \<rparr>,
                          ev1, filter is_tile_request ev1)"
    using a by (rule run_loads_while_loading)
  finally show ?thesis
    using loadTile_one_request [of e src t cb] by (simp add: s)
qed

section \<open>Helper lemmas: metadata\<close>



lemma loadTileJSON_handle: "fst (loadTileJSON e rt options cb) = nextHandle rt"
  by (simp add: loadTileJSON_def getJSON_def frame_def Let_def)

lemma loadTileJSON_pending_new: "pending (fst (snd (loadTileJSON e rt options cb))) (nextHandle rt) \<noteq> None"
  by (simp add: loadTileJSON_def getJSON_def frame_def Let_def)

lemma loadTileJSON_pending_old:
  "h \<noteq> nextHandle rt \<Longrightarrow> pending (fst (snd (loadTileJSON e rt options cb))) h = pending rt h"
  by (simp add: loadTileJSON_def getJSON_def frame_def Let_def)

lemma frame_arrives_not_pending: "pending rt h = None \<Longrightarrow> frame_arrives e rt h = (rt, None)"
  by (simp add: frame_arrives_def)

lemma response_arrives_not_pending: "pending rt h = None \<Longrightarrow> response_arrives e rt h err tj = (rt, None)"
  by (simp add: response_arrives_def)

lemma cancel_pending [simp]: "pending (cancel h rt) h = None" "nextHandle (cancel h rt) = nextHandle rt"
  by (simp_all add: cancel_def)

lemma load_result:
  "load e (src, rt)
     = (src\<lparr> u_loaded := False, u_tileJSONRequest := Some (nextHandle rt) \<rparr>,
        fst (snd (loadTileJSON e rt (u_options src) (LoadClosure (get (props src) ''id'')))),
        EvFire ''dataloading'' [(''dataType'', ''source'')]
          # snd (snd (loadTileJSON e rt (u_options src) (LoadClosure (get (props src) ''id'')))))"
  using loadTileJSON_handle [of e rt "u_options src" "LoadClosure (get (props src) ''id'')"]
  by (auto simp: load_def Let_def split: prod.splits)

lemma apply_completion_none [simp]: "apply_completion e src None = (src, [])"
  by (simp add: apply_completion_def)

lemma stale_response:
  "pending rt h = None \<Longrightarrow> source_response_arrives e (src, rt) h err tj = (src, rt, [])"
  by (simp add: source_response_arrives_def response_arrives_not_pending)

lemma stale_frame:
  "pending rt h = None \<Longrightarrow> source_frame_arrives e (src, rt) h = (src, rt, [])"
  by (simp add: source_frame_arrives_def frame_arrives_not_pending)

lemma loadTileJSON_events:
  "\<exists>ev. snd (snd (loadTileJSON e rt options cb)) = [ev] \<and> is_metadata_request ev"
  by (simp add: loadTileJSON_def getJSON_def frame_def Let_def is_metadata_request_def)

lemma setSourceProperty_result:
  "setSourceProperty e f (src, rt)
     = ((f src)\<lparr> u_loaded := False, u_tileJSONRequest := Some (nextHandle rt) \<rparr>,
        fst (snd (loadTileJSON e (case u_tileJSONRequest src of Some h \<Rightarrow> cancel h rt | None \<Rightarrow> rt)
                    (u_options (f src)) (LoadClosure (get (props (f src)) ''id'')))),
        (case u_tileJSONRequest src of Some h \<Rightarrow> [EvCancel h] | None \<Rightarrow> [])
          @ map EvClearTiles (getSourceCaches e (get (props (f src)) ''id''))
          @ EvFire ''dataloading'' [(''dataType'', ''source'')]
          # snd (snd (loadTileJSON e (case u_tileJSONRequest src of Some h \<Rightarrow> cancel h rt | None \<Rightarrow> rt)
                        (u_options (f src)) (LoadClosure (get (props (f src)) ''id'')))))"
  by (cases "u_tileJSONRequest src")
     (simp_all add: setSourceProperty_def Let_def load_result)

lemma loadTileJSON_pending_dom:
  "dom (pending (fst (snd (loadTileJSON e rt options cb)))) = insert (nextHandle rt) (dom (pending rt))"
  by (simp add: loadTileJSON_def getJSON_def frame_def Let_def)

lemma setSourceProperty_pending_dom:
  "dom (pending rt) \<subseteq> set_option (u_tileJSONRequest src) \<Longrightarrow>
   dom (pending (fst (snd (setSourceProperty e f (src, rt))))) = {nextHandle rt}"
  by (cases "u_tileJSONRequest src")
     (auto simp: setSourceProperty_result loadTileJSON_pending_dom cancel_def)

lemma setSourceProperty_supersedes:
  assumes id: "get (props (f src)) ''id'' = get (props src) ''id''"
  shows "u_loaded (fst (setSourceProperty e f (src, rt))) = False"
    and "u_tileJSONRequest (fst (setSourceProperty e f (src, rt))) = Some (nextHandle rt)"
    and "pending (fst (snd (setSourceProperty e f (src, rt)))) (nextHandle rt) \<noteq> None"
    and "\<exists>ev. snd (snd (setSourceProperty e f (src, rt)))
                = (case u_tileJSONRequest src of Some h \<Rightarrow> [EvCancel h] | None \<Rightarrow> [])
                    @ map EvClearTiles (getSourceCaches e (get (props src) ''id''))
                    @ [EvFire ''dataloading'' [(''dataType'', ''source'')], ev]
              \<and> is_metadata_request ev"
    and "u_tileJSONRequest src = Some h \<Longrightarrow> h \<noteq> nextHandle rt \<Longrightarrow>
         pending (fst (snd (setSourceProperty e f (src, rt)))) h = None"
proof -
  let ?rt0 = "case u_tileJSONRequest src of Some h \<Rightarrow> cancel h rt | None \<Rightarrow> rt"
  let ?r = "loadTileJSON e ?rt0 (u_options (f src)) (LoadClosure (get (props src) ''id''))"
  have nh: "nextHandle ?rt0 = nextHandle rt"
    by (simp split: option.splits)
  from loadTileJSON_events [of e ?rt0 "u_options (f src)" "LoadClosure (get (props src) ''id'')"]
  obtain ev where ev: "snd (snd ?r) = [ev]" "is_metadata_request ev" by blast
  show "u_loaded (fst (setSourceProperty e f (src, rt))) = False"
    by (simp add: setSourceProperty_result)
  show "u_tileJSONRequest (fst (setSourceProperty e f (src, rt))) = Some (nextHandle rt)"
    by (simp add: setSourceProperty_result)
  show "pending (fst (snd (setSourceProperty e f (src, rt)))) (nextHandle rt) \<noteq> None"
    using loadTileJSON_pending_new [of e ?rt0 "u_options (f src)" "LoadClosure (get (props src) ''id'')"]
    by (simp add: setSourceProperty_result id nh)
  show "\<exists>ev. snd (snd (setSourceProperty e f (src, rt)))
                = (case u_tileJSONRequest src of Some h \<Rightarrow> [EvCancel h] | None \<Rightarrow> [])
                    @ map EvClearTiles (getSourceCaches e (get (props src) ''id''))
                    @ [EvFire ''dataloading'' [(''dataType'', ''source'')], ev]
              \<and> is_metadata_request ev"
    using ev by (simp add: setSourceProperty_result id)
  assume h: "u_tileJSONRequest src = Some h" "h \<noteq> nextHandle rt"
  then have "pending ?rt0 h = None" by simp
  with h show "pending (fst (snd (setSourceProperty e f (src, rt)))) h = None"
    using loadTileJSON_pending_old [of h ?rt0 e "u_options (f src)" "LoadClosure (get (props src) ''id'')"]
    by (simp add: setSourceProperty_result id nh)
qed

lemma setter_keeps_id:
  "get (props (s\<lparr> props := (props s)(''url'' \<mapsto> v), u_options := (u_options s)(''url'' \<mapsto> v) \<rparr>)) ''id''
     = get (props s) ''id''"
  "get (props (s\<lparr> u_options := (u_options s)(''tiles'' \<mapsto> v) \<rparr>)) ''id'' = get (props s) ''id''"
  by (simp_all add: get_def)

lemma demo_setUrl_events:
  "snd (snd (setUrl demo_env (JStr ''mapbox://mapbox.satellite'') (loading_source, busy_runtime)))
     = [EvCancel 0, EvClearTiles 0, EvClearTiles 1,
        EvFire ''dataloading'' [(''dataType'', ''source'')],
        EvGetJSON \<lparr> rp_url = ''mapbox://mapbox.satellite'', rp_collectResourceTiming = JUndefined \<rparr> 1]"
  by (simp add: setUrl_def setSourceProperty_def load_def loadTileJSON_def getJSON_def Let_def
        loading_source_def busy_runtime_def demo_source_def demo_env_def get_def cancel_def
        source_defaults_def)

section \<open>The properties\<close>

text \<open>
  C1 (amended). For a completion on a tile that is not aborted: an error whose status is
  not 404 is passed to the caller's callback and nothing else happens (the request handle
  is cleared; no resource timing, no \<^verbatim>\<open>loadVectorData\<close>). An error whose status is 404 is
  not passed on: the completion is handled exactly as one without error, the tile gets
  \<^verbatim>\<open>loadVectorData(data)\<close>, the callback is called once, with \<^verbatim>\<open>null\<close>, and when the completion
  carries no data the tile's resource timing is unchanged.
\<close>

theorem done_error_propagation:
  assumes "\<not> aborted t"
  shows "(status er \<noteq> JNum 404 \<longrightarrow>
            done_handler e src t cb (Some er) dat = (src, t\<lparr> request := None \<rparr>, [EvCallback cb (Some er)]))
       \<and> (status er = JNum 404 \<longrightarrow>
            done_handler e src t cb (Some er) dat = done_handler e src t cb None dat
          \<and> filter is_callback (snd (snd (done_handler e src t cb (Some er) dat))) = [EvCallback cb None]
          \<and> EvLoadVectorData (uid t) dat \<in> set (snd (snd (done_handler e src t cb (Some er) dat)))
          \<and> (dat = None \<longrightarrow>
                resourceTiming (fst (snd (done_handler e src t cb (Some er) dat))) = resourceTiming t))"
proof (intro conjI impI)
  assume "status er \<noteq> JNum 404"
  with assms show "done_handler e src t cb (Some er) dat = (src, t\<lparr> request := None \<rparr>, [EvCallback cb (Some er)])"
    by (simp add: done_propagated)
next
  assume nf: "status er = JNum 404"
  then show "done_handler e src t cb (Some er) dat = done_handler e src t cb None dat"
    by (rule done_404_as_success)
  from nf assms show "filter is_callback (snd (snd (done_handler e src t cb (Some er) dat))) = [EvCallback cb None]"
    by (simp add: done_not_fatal_callbacks)
  from nf assms show "EvLoadVectorData (uid t) dat \<in> set (snd (snd (done_handler e src t cb (Some er) dat)))"
    by (cases "reloadCallback t")
       (simp_all add: done_success_plain done_success_reissue success_events_def)
  assume "dat = None"
  with nf show "resourceTiming (fst (snd (done_handler e src t cb (Some er) dat))) = resourceTiming t"
    by (simp add: done_no_data_timing)
qed

text \<open>
  C1 as stated fails: a 404 completion on the demo tile is not propagated; the tile is
  materialised with no data and the callback receives \<^verbatim>\<open>null\<close>.
\<close>

theorem done_404_counterexample:
  "status not_found = JNum 404
   \<and> \<not> aborted demo_tile
   \<and> snd (snd (done_handler demo_env demo_source demo_tile (Cb 1) (Some not_found) None))
       = [EvLoadVectorData 7 None, EvCacheEntryPossiblyAdded, EvCallback (Cb 1) None]"
  by (simp add: done_handler_def Let_def demo_tile_def not_found_def success_events_def
        materialised_def with_resource_timing_def propagated_def)

text \<open>The theorem of C1 on the demo tile, at a 500 and at a 404.\<close>

theorem done_error_propagation_witness:
  "\<not> aborted demo_tile
   \<and> done_handler demo_env demo_source demo_tile (Cb 1) (Some server_error) None
       = (demo_source, demo_tile\<lparr> request := None \<rparr>, [EvCallback (Cb 1) (Some server_error)])
   \<and> filter is_callback (snd (snd (done_handler demo_env demo_source demo_tile (Cb 1) (Some not_found) None)))
       = [EvCallback (Cb 1) None]"
proof -
  have a: "\<not> aborted demo_tile" by (simp add: demo_tile_def)
  have s: "status server_error \<noteq> JNum 404" "status not_found = JNum 404"
    by (simp_all add: server_error_def not_found_def)
  from done_error_propagation [OF a, of server_error demo_env demo_source "Cb 1" None] s(1)
  have p: "done_handler demo_env demo_source demo_tile (Cb 1) (Some server_error) None
       = (demo_source, demo_tile\<lparr> request := None \<rparr>, [EvCallback (Cb 1) (Some server_error)])"
    by blast
  from done_error_propagation [OF a, of not_found demo_env demo_source "Cb 1" None] s(2)
  have q: "filter is_callback (snd (snd (done_handler demo_env demo_source demo_tile (Cb 1) (Some not_found) None)))
       = [EvCallback (Cb 1) None]"
    by blast
  from a p q show ?thesis by blast
qed

text \<open>
  C2. For a tile in state \<^verbatim>\<open>'loading'\<close> with a request in flight (so its actor is bound:
  every \<^verbatim>\<open>loadTile\<close> call leaves the actor bound, lemma \<open>loadTile_binds_actor\<close>), a further
  \<^verbatim>\<open>loadTile(tile, callback)\<close> makes no call at all (no fetch, no worker message), leaves the
  source and the tile's request handle as they are and stores the callback in
  \<^verbatim>\<open>tile.reloadCallback\<close>; yet another call overwrites that slot with its own callback, and
  after any number of such calls the slot holds the last callback and no request has been
  added to those outstanding. So on a tile in state \<^verbatim>\<open>'loading'\<close>, bound or not, any sequence
  of \<^verbatim>\<open>loadTile\<close> calls makes at most one request, and at most one is outstanding afterwards:
  the first call's dispatch when the tile had no actor.
\<close>

theorem loadTile_while_loading:
  "(state t = ''loading'' \<and> actor t \<noteq> None \<longrightarrow>
      loadTile e src t cb = (src, t\<lparr> reloadCallback := Some cb \<rparr>, [])
    \<and> loadTile e src' (t\<lparr> reloadCallback := Some cb \<rparr>) cb'
        = (src', t\<lparr> reloadCallback := Some cb' \<rparr>, []))
   \<and> (state t = ''loading'' \<and> actor t \<noteq> None \<and> cbs \<noteq> [] \<longrightarrow>
      run e (src, t, evs, out) (map Load cbs)
        = Some (src, t\<lparr> reloadCallback := Some (last cbs) \<rparr>, evs, out))
   \<and> (state t = ''loading'' \<longrightarrow>
      (\<exists>src1 t1 evs1 out1.
          run e (src, t, [], []) (map Load cbs) = Some (src1, t1, evs1, out1)
        \<and> length (filter is_tile_request evs1) \<le> 1 \<and> length out1 \<le> 1))"
  using loadTile_loading [of t e src cb] loadTile_loading [of "t\<lparr> reloadCallback := Some cb \<rparr>" e src' cb']
        loads_one_request [of t e src cbs] run_loads_while_loading [of t e src evs out cbs]
  by simp

text \<open>
  The theorem of C2 on the demo tile: the first call dispatches and leaves the tile in flight;
  the second and third calls only write the slot.
\<close>

theorem loadTile_while_loading_witness:
  "fst (snd (loadTile demo_env demo_source demo_tile (Cb 1))) = in_flight_tile
   \<and> state in_flight_tile = ''loading'' \<and> actor in_flight_tile \<noteq> None
   \<and> loadTile demo_env demo_source in_flight_tile (Cb 2)
       = (demo_source, in_flight_tile\<lparr> reloadCallback := Some (Cb 2) \<rparr>, [])
   \<and> loadTile demo_env demo_source (in_flight_tile\<lparr> reloadCallback := Some (Cb 2) \<rparr>) (Cb 3)
       = (demo_source, in_flight_tile\<lparr> reloadCallback := Some (Cb 3) \<rparr>, [])
   \<and> run demo_env (demo_source, in_flight_tile, [], []) (map Load [Cb 2, Cb 3])
       = Some (demo_source, in_flight_tile\<lparr> reloadCallback := Some (Cb 3) \<rparr>, [], [])
   \<and> state demo_tile = ''loading''
   \<and> run demo_env (demo_source, demo_tile, [], []) (map Load [Cb 1, Cb 2, Cb 3]) \<noteq> None
   \<and> length (filter is_tile_request
        (fst (snd (snd (the (run demo_env (demo_source, demo_tile, [], []) (map Load [Cb 1, Cb 2, Cb 3]))))))) \<le> 1
   \<and> length (snd (snd (snd (the (run demo_env (demo_source, demo_tile, [], [])
                                     (map Load [Cb 1, Cb 2, Cb 3])))))) \<le> 1"
proof -
  have s: "state in_flight_tile = ''loading''" and a: "actor in_flight_tile \<noteq> None"
    and d: "state demo_tile = ''loading''"
    by (simp_all add: in_flight_tile_def demo_tile_def)
  have f: "fst (snd (loadTile demo_env demo_source demo_tile (Cb 1))) = in_flight_tile"
    unfolding demo_first_load by simp
  note t1 = loadTile_while_loading [where t = in_flight_tile and e = demo_env and src = demo_source
              and cb = "Cb 2" and src' = demo_source and cb' = "Cb 3",
              THEN conjunct1, THEN mp, OF conjI, OF s a]
  have n: "[Cb 2, Cb 3] \<noteq> []" by simp
  note t2 = loadTile_while_loading [where t = demo_tile and e = demo_env and src = demo_source
              and cbs = "[Cb 1, Cb 2, Cb 3]", THEN conjunct2, THEN conjunct2, THEN mp, OF d]
  note t3 = loadTile_while_loading [where t = in_flight_tile and e = demo_env and src = demo_source
              and cbs = "[Cb 2, Cb 3]" and evs = "[]" and out = "[]", THEN conjunct2, THEN conjunct1, THEN mp,
              OF conjI [OF s conjI [OF a n]]]
  have t3': "run demo_env (demo_source, in_flight_tile, [], []) (map Load [Cb 2, Cb 3])
       = Some (demo_source, in_flight_tile\<lparr> reloadCallback := Some (Cb 3) \<rparr>, [], [])"
    using t3 by simp
  from t2 obtain src1 t1' evs1 out1 where
    r: "run demo_env (demo_source, demo_tile, [], []) (map Load [Cb 1, Cb 2, Cb 3]) = Some (src1, t1', evs1, out1)"
    and l: "length (filter is_tile_request evs1) \<le> 1" "length out1 \<le> 1"
    by (elim exE conjE)
  have t2': "run demo_env (demo_source, demo_tile, [], []) (map Load [Cb 1, Cb 2, Cb 3]) \<noteq> None"
    "length (filter is_tile_request
        (fst (snd (snd (the (run demo_env (demo_source, demo_tile, [], []) (map Load [Cb 1, Cb 2, Cb 3]))))))) \<le> 1"
    "length (snd (snd (snd (the (run demo_env (demo_source, demo_tile, [], [])
                                     (map Load [Cb 1, Cb 2, Cb 3])))))) \<le> 1"
    unfolding r using l by simp_all
  from f s a d t1 t2' t3' show ?thesis by (intro conjI) (elim conjE, assumption)+
qed




text \<open>
  C4. Every completion clears the tile's stored request handle: the handle that was stored
  has no influence on what the completion does, and the tile has no request handle
  afterwards unless the completion went on to re-issue a queued reload (the tile not
  aborted, the error not propagated, a reload callback queued). If the tile is marked
  aborted, the callback is called with a null error and no result and that is all: no
  error is propagated, no expiry update, no \<^verbatim>\<open>loadVectorData\<close>, no re-issue, and the tile and
  the source are otherwise unchanged.
\<close>

theorem done_clears_request_and_swallows_abort:
  "(\<forall>r. done_handler e src (t\<lparr> request := r \<rparr>) cb err dat = done_handler e src t cb err dat)
   \<and> (aborted t \<longrightarrow>
        done_handler e src t cb err dat = (src, t\<lparr> request := None \<rparr>, [EvCallback cb None]))
   \<and> (aborted t \<or> propagated err \<or> reloadCallback t = None \<longrightarrow>
        request (fst (snd (done_handler e src t cb err dat))) = None)"
proof (intro conjI allI impI)
  fix r show "done_handler e src (t\<lparr> request := r \<rparr>) cb err dat = done_handler e src t cb err dat"
    by (rule done_ignores_request)
next
  assume "aborted t"
  then show "done_handler e src t cb err dat = (src, t\<lparr> request := None \<rparr>, [EvCallback cb None])"
    by (rule done_aborted)
next
  assume c: "aborted t \<or> propagated err \<or> reloadCallback t = None"
  show "request (fst (snd (done_handler e src t cb err dat))) = None"
  proof (cases "aborted t")
    case True
    then show ?thesis by (simp add: done_aborted)
  next
    case na: False
    show ?thesis
    proof (cases "propagated err")
      case True
      with na show ?thesis by (simp add: done_propagated)
    next
      case False
      with na c have "reloadCallback t = None" by simp
      with na False show ?thesis by (simp add: done_success_plain)
    qed
  qed
qed

text \<open>The theorem of C4 on an aborted tile whose request fails with a 500.\<close>

theorem done_clears_request_and_swallows_abort_witness:
  "aborted (in_flight_tile\<lparr> aborted := True \<rparr>)
   \<and> done_handler demo_env demo_source (in_flight_tile\<lparr> aborted := True \<rparr>) (Cb 1) (Some server_error) None
       = (demo_source, in_flight_tile\<lparr> aborted := True, request := None \<rparr>, [EvCallback (Cb 1) None])
   \<and> request (fst (snd (done_handler demo_env demo_source (in_flight_tile\<lparr> aborted := True \<rparr>) (Cb 1)
                           (Some server_error) None))) = None"
proof -
  have a: "aborted (in_flight_tile\<lparr> aborted := True \<rparr>)" by simp
  from done_clears_request_and_swallows_abort
         [of demo_env demo_source "in_flight_tile\<lparr> aborted := True \<rparr>" "Cb 1" "Some server_error" None] a
  show ?thesis by simp
qed

text \<open>
  C5 (amended). When the dispatcher is not ready and the tile takes the fresh-dispatch
  branch (no actor, or state \<^verbatim>\<open>'expired'\<close>), \<^verbatim>\<open>loadTile\<close> requests the raw tile through the
  deduplication table and sends no worker message: the call's waiter is registered under
  the request URL, a network fetch starts exactly when the table had no entry for it, and
  the tile's request handle is the inline one. When the inline fetch fails (an error, or no
  data), no \<^verbatim>\<open>loadTile\<close> message is sent for it: the completion handler runs with the error
  and no data, so on a tile that is not aborted an error other than a 404 reaches the
  callback, a 404 (or a fetch without error and without data) ends with the callback called
  with \<^verbatim>\<open>null\<close>, and with no reload queued no worker message is sent at all. When it succeeds and the
  tile's actor is bound, one \<^verbatim>\<open>loadTile\<close> message goes to that actor whose payload carries
  \<^verbatim>\<open>cacheControl\<close>, \<^verbatim>\<open>expires\<close> and the fetched bytes in \<^verbatim>\<open>data\<close>.
\<close>

theorem cold_path_inline_fetch:
  "(\<not> ready (dispatcher src) \<and> (actor t = None \<or> state t = ''expired'') \<longrightarrow>
       snd (snd (loadTile e src t cb)) = snd (loadVectorTile (u_deduped src) (tile_params e src t) (uid t, cb))
     \<and> (\<forall>ev \<in> set (snd (snd (loadTile e src t cb))). \<not> is_send ev)
     \<and> EvLoadVectorTile (tile_params e src t) (uid t, cb) \<in> set (snd (snd (loadTile e src t cb)))
     \<and> (EvFetch (p_request (tile_params e src t)) \<in> set (snd (snd (loadTile e src t cb)))
          \<longleftrightarrow> u_deduped src (rp_url (p_request (tile_params e src t))) = None)
     \<and> (\<exists>ws. u_deduped (fst (loadTile e src t cb)) (rp_url (p_request (tile_params e src t)))
                = Some (ws @ [(uid t, cb)]))
     \<and> request (fst (snd (loadTile e src t cb)))
         = Some (InlineRequest (rp_url (p_request (tile_params e src t)))))
   \<and> (err \<noteq> None \<or> raw = None \<longrightarrow>
        inline_loaded e src t cb ps err raw = done_handler e src t cb err None)
   \<and> ((err \<noteq> None \<or> raw = None) \<and> reloadCallback t = None \<longrightarrow>
        (\<forall>ev \<in> set (snd (snd (inline_loaded e src t cb ps err raw))). \<not> is_send ev))
   \<and> (\<not> aborted t \<and> propagated err \<longrightarrow>
        inline_loaded e src t cb ps err raw = (src, t\<lparr> request := None \<rparr>, [EvCallback cb err]))
   \<and> (\<not> aborted t \<and> \<not> propagated err \<and> (err \<noteq> None \<or> raw = None) \<longrightarrow>
        filter is_callback (snd (snd (inline_loaded e src t cb ps err raw))) = [EvCallback cb None])
   \<and> (actor t = Some a \<longrightarrow>
        inline_loaded e src t cb ps None (Some d)
          = (src, t, [EvSend a ''loadTile''
                        (ps\<lparr> p_data := Some \<lparr> cacheControl = lv_cacheControl d, expires = lv_expires d,
                                              rawData = lv_rawData d \<rparr> \<rparr>) (uid t, cb) True]))"
proof (intro conjI impI)
  assume c: "\<not> ready (dispatcher src) \<and> (actor t = None \<or> state t = ''expired'')"
  then have eq: "loadTile e src t cb
     = (src\<lparr> u_tileWorkers := (u_tileWorkers src)(tile_url e src t \<mapsto> fst (assigned_actor e src t)),
             dispatcher := (dispatcher src)\<lparr> pool := snd (assigned_actor e src t) \<rparr>,
             u_deduped := fst (loadVectorTile (u_deduped src) (tile_params e src t) (uid t, cb)) \<rparr>,
        t\<lparr> actor := Some (fst (assigned_actor e src t)),
           request := Some (InlineRequest (rp_url (p_request (tile_params e src t)))) \<rparr>,
        snd (loadVectorTile (u_deduped src) (tile_params e src t) (uid t, cb)))"
    by (simp add: loadTile_fresh_cold)
  show "snd (snd (loadTile e src t cb)) = snd (loadVectorTile (u_deduped src) (tile_params e src t) (uid t, cb))"
    by (simp add: eq)
  show "\<forall>ev \<in> set (snd (snd (loadTile e src t cb))). \<not> is_send ev"
    using loadVectorTile_events by (simp add: eq)
  show "EvLoadVectorTile (tile_params e src t) (uid t, cb) \<in> set (snd (snd (loadTile e src t cb)))"
    by (simp add: eq loadVectorTile_has_call)
  show "EvFetch (p_request (tile_params e src t)) \<in> set (snd (snd (loadTile e src t cb)))
          \<longleftrightarrow> u_deduped src (rp_url (p_request (tile_params e src t))) = None"
    by (simp add: eq loadVectorTile_fetch_iff)
  show "\<exists>ws. u_deduped (fst (loadTile e src t cb)) (rp_url (p_request (tile_params e src t)))
                = Some (ws @ [(uid t, cb)])"
    using loadVectorTile_registers by (simp add: eq)
  show "request (fst (snd (loadTile e src t cb)))
         = Some (InlineRequest (rp_url (p_request (tile_params e src t))))"
    by (simp add: eq)
next
  assume "err \<noteq> None \<or> raw = None"
  then show "inline_loaded e src t cb ps err raw = done_handler e src t cb err None"
    by (rule inline_loaded_failure)
next
  assume f: "(err \<noteq> None \<or> raw = None) \<and> reloadCallback t = None"
  then show "\<forall>ev \<in> set (snd (snd (inline_loaded e src t cb ps err raw))). \<not> is_send ev"
    using done_no_reload_no_send [of t _ e src cb err None] by (simp add: inline_loaded_failure)
next
  assume p: "\<not> aborted t \<and> propagated err"
  then have "err \<noteq> None" by (cases err) (auto simp: propagated_def)
  with p show "inline_loaded e src t cb ps err raw = (src, t\<lparr> request := None \<rparr>, [EvCallback cb err])"
    by (simp add: inline_loaded_failure done_propagated)
next
  assume "\<not> aborted t \<and> \<not> propagated err \<and> (err \<noteq> None \<or> raw = None)"
  then show "filter is_callback (snd (snd (inline_loaded e src t cb ps err raw))) = [EvCallback cb None]"
    by (simp add: inline_loaded_failure done_not_fatal_callbacks)
next
  assume "actor t = Some a"
  then show "inline_loaded e src t cb ps None (Some d)
          = (src, t, [EvSend a ''loadTile''
                        (ps\<lparr> p_data := Some \<lparr> cacheControl = lv_cacheControl d, expires = lv_expires d,
                                              rawData = lv_rawData d \<rparr> \<rparr>) (uid t, cb) True])"
    by (rule inline_loaded_success)
qed

text \<open>
  C5 as stated fails twice over: with the dispatcher not ready, a loaded tile with a bound
  actor gets a \<^verbatim>\<open>reloadTile\<close> message at once and no inline fetch; and an inline fetch that
  fails with a 404 ends with the callback receiving \<^verbatim>\<open>null\<close>, not the error.
\<close>

theorem cold_path_counterexample:
  "\<not> ready (dispatcher cold_source)
   \<and> snd (snd (loadTile demo_env cold_source loaded_tile (Cb 1)))
       = [EvSend 0 ''reloadTile'' (tile_params demo_env cold_source loaded_tile) (7, Cb 1) False]
   \<and> snd (snd (inline_loaded demo_env cold_source in_flight_tile (Cb 1)
                  (tile_params demo_env cold_source demo_tile) (Some not_found) None))
       = [EvLoadVectorData 7 None, EvCacheEntryPossiblyAdded, EvCallback (Cb 1) None]"
  by (simp add: loadTile_def Let_def loaded_tile_def demo_tile_def cold_source_def
        inline_loaded_def done_handler_def in_flight_tile_def not_found_def success_events_def
        materialised_def with_resource_timing_def)

text \<open>The theorem of C5 on the demo tile: the cold dispatch, a failed and a successful inline fetch.\<close>

theorem cold_path_inline_fetch_witness:
  "\<not> ready (dispatcher cold_source) \<and> actor demo_tile = None
   \<and> snd (snd (loadTile demo_env cold_source demo_tile (Cb 1)))
       = [EvLoadVectorTile (tile_params demo_env cold_source demo_tile) (7, Cb 1),
          EvFetch (p_request (tile_params demo_env cold_source demo_tile))]
   \<and> inline_loaded demo_env cold_source in_flight_tile (Cb 1) (tile_params demo_env cold_source demo_tile)
         (Some server_error) None
       = (cold_source, in_flight_tile\<lparr> request := None \<rparr>, [EvCallback (Cb 1) (Some server_error)])
   \<and> inline_loaded demo_env cold_source in_flight_tile (Cb 1) (tile_params demo_env cold_source demo_tile)
         None (Some demo_raw)
       = (cold_source, in_flight_tile,
          [EvSend 0 ''loadTile''
             ((tile_params demo_env cold_source demo_tile)
                \<lparr> p_data := Some \<lparr> cacheControl = JStr ''max-age=60'', expires = JUndefined,
                                    rawData = [26, 3] \<rparr> \<rparr>) (7, Cb 1) True])"
proof -
  have c: "\<not> ready (dispatcher cold_source) \<and> (actor demo_tile = None \<or> state demo_tile = ''expired'')"
    by (simp add: cold_source_def demo_tile_def)
  have d: "u_deduped cold_source (rp_url (p_request (tile_params demo_env cold_source demo_tile))) = None"
    by (simp add: cold_source_def demo_source_def)
  have p: "\<not> aborted in_flight_tile \<and> propagated (Some server_error)"
    by (simp add: in_flight_tile_def demo_tile_def server_error_def)
  have a: "actor in_flight_tile = Some 0" "uid in_flight_tile = 7"
    by (simp_all add: in_flight_tile_def demo_tile_def)
  note t1 = cold_path_inline_fetch [where src = cold_source and t = demo_tile and e = demo_env and cb = "Cb 1"]
  note t2 = cold_path_inline_fetch [where src = cold_source and t = in_flight_tile and e = demo_env
              and cb = "Cb 1" and err = "Some server_error" and raw = None
              and ps = "tile_params demo_env cold_source demo_tile" and a = 0 and d = demo_raw]
  from t1 c have "snd (snd (loadTile demo_env cold_source demo_tile (Cb 1)))
       = snd (loadVectorTile (u_deduped cold_source) (tile_params demo_env cold_source demo_tile) (uid demo_tile, Cb 1))"
    by blast
  with d have e1: "snd (snd (loadTile demo_env cold_source demo_tile (Cb 1)))
       = [EvLoadVectorTile (tile_params demo_env cold_source demo_tile) (7, Cb 1),
          EvFetch (p_request (tile_params demo_env cold_source demo_tile))]"
    by (simp add: loadVectorTile_def Let_def demo_tile_def)
  from t2 p have e2: "inline_loaded demo_env cold_source in_flight_tile (Cb 1) (tile_params demo_env cold_source demo_tile)
         (Some server_error) None
       = (cold_source, in_flight_tile\<lparr> request := None \<rparr>, [EvCallback (Cb 1) (Some server_error)])"
    by blast
  from t2 a have e3: "inline_loaded demo_env cold_source in_flight_tile (Cb 1) (tile_params demo_env cold_source demo_tile)
         None (Some demo_raw)
       = (cold_source, in_flight_tile,
          [EvSend 0 ''loadTile''
             ((tile_params demo_env cold_source demo_tile)
                \<lparr> p_data := Some \<lparr> cacheControl = JStr ''max-age=60'', expires = JUndefined,
                                    rawData = [26, 3] \<rparr> \<rparr>) (7, Cb 1) True])"
    by (simp add: demo_raw_def)
  from c e1 e2 e3 show ?thesis by (simp add: demo_tile_def)
qed

text \<open>
  C6 (amended). When the metadata arrives without error and the callback is reached, then
  for every recognised key other than \<^verbatim>\<open>tiles\<close> (\<^verbatim>\<open>minzoom\<close>, \<^verbatim>\<open>maxzoom\<close>, \<^verbatim>\<open>attribution\<close>,
  \<^verbatim>\<open>mapbox_logo\<close>, \<^verbatim>\<open>bounds\<close>, \<^verbatim>\<open>scheme\<close>, \<^verbatim>\<open>tileSize\<close>, \<^verbatim>\<open>encoding\<close>, \<^verbatim>\<open>zoomoffset\<close>) the resolved
  descriptor has the explicit option's value if the options define the key and the fetched
  value otherwise; \<^verbatim>\<open>tiles\<close> is the canonicalised form of the list chosen the same way; a
  key outside the recognised list (other than the derived \<^verbatim>\<open>vectorLayers\<close> and
  \<^verbatim>\<open>vectorLayerIds\<close>) is not in the descriptor. The callback is reached exactly when the
  merged document's \<^verbatim>\<open>vector_layers\<close> is usable (falsy, or an array without \<^verbatim>\<open>null\<close> or
  \<^verbatim>\<open>undefined\<close> elements).
\<close>

theorem loaded_recognised_keys:
  "((\<exists>r. loaded e options None (Some tj) = Inr (Some (None, Some r)))
      \<longleftrightarrow> layers_well_formed (extend_obj tj options))
   \<and> (\<forall>r er. loaded e options None (Some tj) = Inr (Some (er, Some r)) \<longrightarrow>
        (\<forall>k \<in> set tilejson_keys. k \<noteq> ''tiles'' \<longrightarrow>
            r k = (case options k of Some v \<Rightarrow> Some v | None \<Rightarrow> tj k))
      \<and> (\<exists>r0. r ''tiles'' = Some (canonicalizeTileset e r0 (get options ''url''))
              \<and> r0 ''tiles'' = (case options ''tiles'' of Some v \<Rightarrow> Some v | None \<Rightarrow> tj ''tiles''))
      \<and> (\<forall>k. k \<notin> set tilejson_keys \<and> k \<noteq> ''vectorLayers'' \<and> k \<noteq> ''vectorLayerIds'' \<longrightarrow> r k = None))"
proof (intro conjI allI impI)
  show "(\<exists>r. loaded e options None (Some tj) = Inr (Some (None, Some r)))
      \<longleftrightarrow> layers_well_formed (extend_obj tj options)"
    by (rule loaded_reaches_callback)
next
  fix r er assume a: "loaded e options None (Some tj) = Inr (Some (er, Some r))"
  from loaded_cases [OF a] obtain r0 where
    r: "r = r0(''tiles'' \<mapsto> canonicalizeTileset e r0 (get options ''url''))" and
    r0: "\<And>k. k \<noteq> ''vectorLayers'' \<Longrightarrow> k \<noteq> ''vectorLayerIds'' \<Longrightarrow>
              r0 k = pick (extend_obj tj options) tilejson_keys k"
    by auto
  show "\<forall>k \<in> set tilejson_keys. k \<noteq> ''tiles'' \<longrightarrow>
            r k = (case options k of Some v \<Rightarrow> Some v | None \<Rightarrow> tj k)"
  proof (intro ballI impI)
    fix k assume k: "k \<in> set tilejson_keys" "k \<noteq> ''tiles''"
    then have "k \<noteq> ''vectorLayers''" "k \<noteq> ''vectorLayerIds''"
      by (auto simp: tilejson_keys_def)
    with k r r0 show "r k = (case options k of Some v \<Rightarrow> Some v | None \<Rightarrow> tj k)"
      by (simp add: pick_tilejson_key)
  qed
  have "r0 ''tiles'' = pick (extend_obj tj options) tilejson_keys ''tiles''"
    by (rule r0) simp_all
  moreover have "''tiles'' \<in> set tilejson_keys"
    by (simp add: tilejson_keys_def)
  ultimately have "r0 ''tiles'' = (case options ''tiles'' of Some v \<Rightarrow> Some v | None \<Rightarrow> tj ''tiles'')"
    by (simp add: pick_tilejson_key)
  with r show "\<exists>r0. r ''tiles'' = Some (canonicalizeTileset e r0 (get options ''url''))
              \<and> r0 ''tiles'' = (case options ''tiles'' of Some v \<Rightarrow> Some v | None \<Rightarrow> tj ''tiles'')"
    by auto
  fix k assume k: "k \<notin> set tilejson_keys \<and> k \<noteq> ''vectorLayers'' \<and> k \<noteq> ''vectorLayerIds''"
  then have "k \<noteq> ''tiles''" by (auto simp: tilejson_keys_def)
  with k r r0 show "r k = None" by (simp add: pick_other_key)
qed

lemma demo_loaded:
  "loaded demo_env explicit_minzoom None (Some fetched_zooms)
     = Inr (Some (None, Some ((pick (extend_obj fetched_zooms explicit_minzoom) tilejson_keys)
                   (''tiles'' \<mapsto> JUndefined))))"
  by (simp add: loaded_def Let_def explicit_minzoom_def fetched_zooms_def extend_obj_def get_def
        demo_env_def pick_def tilejson_keys_def)

text \<open>
  The theorem of C6 at the spec's example: explicit \<^verbatim>\<open>{minzoom: 3}\<close> with fetched
  \<^verbatim>\<open>{minzoom: 0, maxzoom: 14, name: 'streets'}\<close> resolves to \<^verbatim>\<open>minzoom\<close> 3 and \<^verbatim>\<open>maxzoom\<close> 14.
\<close>

theorem loaded_recognised_keys_witness:
  "layers_well_formed (extend_obj fetched_zooms explicit_minzoom)
   \<and> projr (loaded demo_env explicit_minzoom None (Some fetched_zooms)) \<noteq> None
   \<and> the (snd (the (projr (loaded demo_env explicit_minzoom None (Some fetched_zooms))))) ''minzoom''
       = Some (JNum 3)
   \<and> the (snd (the (projr (loaded demo_env explicit_minzoom None (Some fetched_zooms))))) ''maxzoom''
       = Some (JNum 14)"
proof -
  note t = loaded_recognised_keys [of demo_env explicit_minzoom fetched_zooms]
  have f: "layers_well_formed (extend_obj fetched_zooms explicit_minzoom)"
    by (simp add: layers_well_formed_def get_def extend_obj_def fetched_zooms_def explicit_minzoom_def)
  with t obtain r where r: "loaded demo_env explicit_minzoom None (Some fetched_zooms) = Inr (Some (None, Some r))"
    by blast
  have k: "''minzoom'' \<in> set tilejson_keys" "''maxzoom'' \<in> set tilejson_keys"
    by (simp_all add: tilejson_keys_def)
  from t r k have "r ''minzoom'' = (case explicit_minzoom ''minzoom'' of Some v \<Rightarrow> Some v | None \<Rightarrow> fetched_zooms ''minzoom'')"
    "r ''maxzoom'' = (case explicit_minzoom ''maxzoom'' of Some v \<Rightarrow> Some v | None \<Rightarrow> fetched_zooms ''maxzoom'')"
    by auto
  then have "r ''minzoom'' = Some (JNum 3)" "r ''maxzoom'' = Some (JNum 14)"
    by (simp_all add: explicit_minzoom_def fetched_zooms_def)
  with f show ?thesis
    unfolding r by simp
qed

text \<open>
  C6 as stated fails: in the same load the field \<^verbatim>\<open>name\<close>, defined only in the fetched
  metadata, is not retained in the resolved descriptor.
\<close>

theorem loaded_drops_unrecognised_counterexample:
  "explicit_minzoom ''name'' = None
   \<and> fetched_zooms ''name'' = Some (JStr ''streets'')
   \<and> projr (loaded demo_env explicit_minzoom None (Some fetched_zooms)) \<noteq> None
   \<and> the (snd (the (projr (loaded demo_env explicit_minzoom None (Some fetched_zooms))))) ''name'' = None"
  by (simp add: demo_loaded) (simp add: explicit_minzoom_def fetched_zooms_def pick_def tilejson_keys_def)



text \<open>
  C8. A call of \<^verbatim>\<open>setUrl\<close> or \<^verbatim>\<open>setTiles\<close> first cancels the metadata request whose handle the
  source holds, if it holds one, then clears the tiles of every source cache of the source,
  then fires \<^verbatim>\<open>dataloading\<close> and schedules a new metadata load; afterwards the source is
  not loaded, holds the new handle, and the new request is pending. When the source's handle
  was the only request pending (as it is after \<^verbatim>\<open>load\<close> from an idle runtime, and after each
  setter), the new request is the only one pending afterwards. The superseded handle is no
  longer pending, so whatever arrives for it later (a response, with or without error, or an
  animation frame) changes neither the source nor the runtime and calls nothing.
\<close>

theorem setters_supersede_metadata_fetch:
  assumes "op = setUrl e v \<or> op = setTiles e v"
  shows "u_loaded (fst (op (src, rt))) = False
       \<and> u_tileJSONRequest (fst (op (src, rt))) = Some (nextHandle rt)
       \<and> pending (fst (snd (op (src, rt)))) (nextHandle rt) \<noteq> None
       \<and> (\<exists>ev. snd (snd (op (src, rt)))
                  = (case u_tileJSONRequest src of Some h \<Rightarrow> [EvCancel h] | None \<Rightarrow> [])
                      @ map EvClearTiles (getSourceCaches e (get (props src) ''id''))
                      @ [EvFire ''dataloading'' [(''dataType'', ''source'')], ev]
                \<and> is_metadata_request ev)
       \<and> (dom (pending rt) \<subseteq> set_option (u_tileJSONRequest src) \<longrightarrow>
              dom (pending (fst (snd (op (src, rt))))) = {nextHandle rt})
       \<and> (\<forall>h. u_tileJSONRequest src = Some h \<and> h \<noteq> nextHandle rt \<longrightarrow>
              pending (fst (snd (op (src, rt)))) h = None
            \<and> (\<forall>err tj. source_response_arrives e (fst (op (src, rt)), fst (snd (op (src, rt)))) h err tj
                          = (fst (op (src, rt)), fst (snd (op (src, rt))), []))
            \<and> source_frame_arrives e (fst (op (src, rt)), fst (snd (op (src, rt)))) h
                = (fst (op (src, rt)), fst (snd (op (src, rt))), []))"
proof -
  obtain f where op: "op = setSourceProperty e f" and id: "get (props (f src)) ''id'' = get (props src) ''id''"
    using assms setter_keeps_id [of src v] unfolding setUrl_def setTiles_def by (elim disjE) blast+
  note s = setSourceProperty_supersedes [where f = f and src = src and e = e and rt = rt, OF id]
  have d: "dom (pending (fst (snd (setSourceProperty e f (src, rt))))) = {nextHandle rt}"
    if "dom (pending rt) \<subseteq> set_option (u_tileJSONRequest src)"
    using that by (simp add: setSourceProperty_pending_dom)
  show ?thesis
    unfolding op using s d by (simp add: stale_response stale_frame)
qed

text \<open>
  The theorem of C8 on the demo source while its first fetch (handle 0) is pending: \<^verbatim>\<open>setUrl\<close>
  cancels handle 0 and issues handle 1, and the response to handle 0 is ignored.
\<close>

theorem setters_supersede_metadata_fetch_witness:
  "u_tileJSONRequest loading_source = Some 0 \<and> 0 \<noteq> nextHandle busy_runtime
   \<and> pending busy_runtime 0 \<noteq> None
   \<and> dom (pending busy_runtime) \<subseteq> set_option (u_tileJSONRequest loading_source)
   \<and> dom (pending (fst (snd (setUrl demo_env (JStr ''mapbox://mapbox.satellite'')
                                  (loading_source, busy_runtime))))) = {1}
   \<and> u_loaded (fst (setUrl demo_env (JStr ''mapbox://mapbox.satellite'') (loading_source, busy_runtime))) = False
   \<and> u_tileJSONRequest (fst (setUrl demo_env (JStr ''mapbox://mapbox.satellite'') (loading_source, busy_runtime)))
       = Some 1
   \<and> snd (snd (setUrl demo_env (JStr ''mapbox://mapbox.satellite'') (loading_source, busy_runtime)))
       = [EvCancel 0, EvClearTiles 0, EvClearTiles 1,
          EvFire ''dataloading'' [(''dataType'', ''source'')],
          EvGetJSON \<lparr> rp_url = ''mapbox://mapbox.satellite'', rp_collectResourceTiming = JUndefined \<rparr> 1]
   \<and> source_response_arrives demo_env
        (fst (setUrl demo_env (JStr ''mapbox://mapbox.satellite'') (loading_source, busy_runtime)),
         fst (snd (setUrl demo_env (JStr ''mapbox://mapbox.satellite'') (loading_source, busy_runtime))))
        0 None (Some fetched_zooms)
       = (fst (setUrl demo_env (JStr ''mapbox://mapbox.satellite'') (loading_source, busy_runtime)),
          fst (snd (setUrl demo_env (JStr ''mapbox://mapbox.satellite'') (loading_source, busy_runtime))), [])"
proof -
  have h: "u_tileJSONRequest loading_source = Some 0" "0 \<noteq> nextHandle busy_runtime"
    "pending busy_runtime 0 \<noteq> None" "nextHandle busy_runtime = 1"
    by (simp_all add: loading_source_def busy_runtime_def)
  have o: "setUrl demo_env (JStr ''mapbox://mapbox.satellite'') = setUrl demo_env (JStr ''mapbox://mapbox.satellite'')
           \<or> setUrl demo_env (JStr ''mapbox://mapbox.satellite'') = setTiles demo_env (JStr ''mapbox://mapbox.satellite'')"
    by simp
  note s = setters_supersede_metadata_fetch [OF o, of loading_source busy_runtime]
  from s h have
    a: "u_loaded (fst (setUrl demo_env (JStr ''mapbox://mapbox.satellite'') (loading_source, busy_runtime))) = False"
       "u_tileJSONRequest (fst (setUrl demo_env (JStr ''mapbox://mapbox.satellite'') (loading_source, busy_runtime)))
          = Some 1"
    by simp_all
  from s h have
    b: "source_response_arrives demo_env
        (fst (setUrl demo_env (JStr ''mapbox://mapbox.satellite'') (loading_source, busy_runtime)),
         fst (snd (setUrl demo_env (JStr ''mapbox://mapbox.satellite'') (loading_source, busy_runtime))))
        0 None (Some fetched_zooms)
       = (fst (setUrl demo_env (JStr ''mapbox://mapbox.satellite'') (loading_source, busy_runtime)),
          fst (snd (setUrl demo_env (JStr ''mapbox://mapbox.satellite'') (loading_source, busy_runtime))), [])"
    by blast
  have i: "dom (pending busy_runtime) \<subseteq> set_option (u_tileJSONRequest loading_source)"
    by (simp add: loading_source_def busy_runtime_def)
  from s i h have
    c: "dom (pending (fst (snd (setUrl demo_env (JStr ''mapbox://mapbox.satellite'')
                                  (loading_source, busy_runtime))))) = {1}"
    by simp
  from a b c i h(1-3) demo_setUrl_events show ?thesis by (intro conjI)
qed

text \<open>
  C9 (amended). A tile with a bound actor whose state is neither \<^verbatim>\<open>'loading'\<close> nor
  \<^verbatim>\<open>'expired'\<close> gets a \<^verbatim>\<open>reloadTile\<close> message on its existing actor, and nothing else: the
  source, with its deduplication table, is unchanged. A fresh dispatch (a \<^verbatim>\<open>loadTile\<close>
  message or the inline \<^verbatim>\<open>loadVectorTile\<close> call) happens exactly when the tile has no actor
  or its state is \<^verbatim>\<open>'expired'\<close>, with or without an actor.
\<close>

theorem loadTile_reload_or_fresh:
  "(actor t = Some a \<and> state t \<noteq> ''loading'' \<and> state t \<noteq> ''expired'' \<longrightarrow>
      loadTile e src t cb
        = (src, t\<lparr> request := Some (ActorRequest a ''reloadTile'') \<rparr>,
           [EvSend a ''reloadTile'' (tile_params e src t) (uid t, cb) False]))
   \<and> ((\<exists>ev \<in> set (snd (snd (loadTile e src t cb))). is_fresh_dispatch ev)
        \<longleftrightarrow> (actor t = None \<or> state t = ''expired''))"
proof (intro conjI impI)
  assume "actor t = Some a \<and> state t \<noteq> ''loading'' \<and> state t \<noteq> ''expired''"
  then show "loadTile e src t cb
        = (src, t\<lparr> request := Some (ActorRequest a ''reloadTile'') \<rparr>,
           [EvSend a ''reloadTile'' (tile_params e src t) (uid t, cb) False])"
    by (simp add: loadTile_reload)
next
  show "(\<exists>ev \<in> set (snd (snd (loadTile e src t cb))). is_fresh_dispatch ev)
        \<longleftrightarrow> (actor t = None \<or> state t = ''expired'')"
  proof (cases "actor t = None \<or> state t = ''expired''")
    case fresh: True
    show ?thesis
    proof (cases "ready (dispatcher src)")
      case True
      with fresh show ?thesis by (simp add: loadTile_fresh_ready)
    next
      case False
      with fresh have "EvLoadVectorTile (tile_params e src t) (uid t, cb) \<in> set (snd (snd (loadTile e src t cb)))"
        by (simp add: loadTile_fresh_cold loadVectorTile_has_call)
      moreover have "is_fresh_dispatch (EvLoadVectorTile (tile_params e src t) (uid t, cb))" by simp
      ultimately show ?thesis using fresh by blast
    qed
  next
    case bound: False
    then obtain a where a: "actor t = Some a" and ne: "state t \<noteq> ''expired''" by auto
    show ?thesis
    proof (cases "state t = ''loading''")
      case True
      with a bound show ?thesis by (simp add: loadTile_loading)
    next
      case False
      with a ne bound show ?thesis by (simp add: loadTile_reload)
    qed
  qed
qed

text \<open>
  C9 as stated fails: an expired tile that has a bound actor is not in the
  expired-with-no-actor case, and it gets a fresh \<^verbatim>\<open>loadTile\<close> dispatch, not \<^verbatim>\<open>reloadTile\<close>.
\<close>

theorem loadTile_expired_bound_counterexample:
  "actor expired_tile = Some 0
   \<and> state expired_tile = ''expired''
   \<and> snd (snd (loadTile demo_env demo_source expired_tile (Cb 1)))
       = [EvSend 0 ''loadTile'' (tile_params demo_env demo_source expired_tile) (7, Cb 1) True]"
  by (simp add: loadTile_def Let_def expired_tile_def demo_tile_def demo_source_def demo_env_def
        demo_dispatcher_def tile_url_def)

text \<open>The theorem of C9 on the loaded demo tile (reload) and on the fresh one (dispatch).\<close>

theorem loadTile_reload_or_fresh_witness:
  "actor loaded_tile = Some 0 \<and> state loaded_tile \<noteq> ''loading'' \<and> state loaded_tile \<noteq> ''expired''
   \<and> loadTile demo_env demo_source loaded_tile (Cb 1)
       = (demo_source, loaded_tile\<lparr> request := Some (ActorRequest 0 ''reloadTile'') \<rparr>,
          [EvSend 0 ''reloadTile'' (tile_params demo_env demo_source loaded_tile) (uid loaded_tile, Cb 1) False])
   \<and> (\<exists>ev \<in> set (snd (snd (loadTile demo_env demo_source demo_tile (Cb 1)))). is_fresh_dispatch ev)"
proof -
  have h: "actor loaded_tile = Some 0 \<and> state loaded_tile \<noteq> ''loading'' \<and> state loaded_tile \<noteq> ''expired''"
    by (simp add: loaded_tile_def demo_tile_def)
  have f: "actor demo_tile = None \<or> state demo_tile = ''expired''"
    by (simp add: demo_tile_def)
  from loadTile_reload_or_fresh [of loaded_tile 0 demo_env demo_source "Cb 1"] h
       loadTile_reload_or_fresh [of demo_tile 0 demo_env demo_source "Cb 1"] f
  show ?thesis by blast
qed

text \<open>
  C10 (amended). The constructor throws its Error exactly when the resolved tileSize (the
  explicit \<^verbatim>\<open>tileSize\<close> option if present, otherwise 512) is not the number 512. When it
  returns, \<^verbatim>\<open>minzoom\<close> is 0 and \<^verbatim>\<open>maxzoom\<close> is 22, the worker-assignment table and the
  deduplication table are empty, and \<^verbatim>\<open>scheme\<close> and \<^verbatim>\<open>zoomoffset\<close> are the explicit option's
  value when the options carry one and \<^verbatim>\<open>'xyz'\<close> and 0 otherwise.
\<close>

theorem constructor_guard_and_defaults:
  "(isl (constructor ident options disp) \<longleftrightarrow> resolved_tileSize options \<noteq> JNum 512)
   \<and> (resolved_tileSize options \<noteq> JNum 512 \<longrightarrow>
        constructor ident options disp = Inl (Error ''vector tile sources must have a tileSize of 512''))
   \<and> (\<forall>src. constructor ident options disp = Inr src \<longrightarrow>
          get (props src) ''minzoom'' = JNum 0
        \<and> get (props src) ''maxzoom'' = JNum 22
        \<and> get (props src) ''scheme'' = option_or_default options ''scheme'' (JStr ''xyz'')
        \<and> get (props src) ''zoomoffset'' = option_or_default options ''zoomoffset'' (JNum 0)
        \<and> u_tileWorkers src = Map.empty
        \<and> u_deduped src = Map.empty)"
proof (intro conjI allI impI)
  show "isl (constructor ident options disp) \<longleftrightarrow> resolved_tileSize options \<noteq> JNum 512"
    by (simp add: constructor_def Let_def ctor_props_tileSize)
next
  assume "resolved_tileSize options \<noteq> JNum 512"
  then show "constructor ident options disp = Inl (Error ''vector tile sources must have a tileSize of 512'')"
    by (simp add: constructor_def Let_def ctor_props_tileSize)
next
  fix src assume a: "constructor ident options disp = Inr src"
  then have ok: "resolved_tileSize options = JNum 512"
    by (simp add: constructor_def Let_def ctor_props_tileSize split: if_splits)
  from a ok have src: "src = \<lparr> props = extend_obj (source_defaults ident)
                         (pick options [''url'', ''scheme'', ''tileSize'', ''promoteId'', ''zoomoffset'']),
                    dispatcher = disp,
                    u_options = extend_obj [''type'' \<mapsto> JStr ''vector''] options,
                    u_collectResourceTiming = get options ''collectResourceTiming'',
                    u_tileJSONRequest = None,
                    u_loaded = False,
                    u_tileWorkers = Map.empty,
                    u_deduped = Map.empty,
                    tileBounds = None \<rparr>"
    by (simp add: constructor_def Let_def ctor_props_tileSize)
  show "get (props src) ''minzoom'' = JNum 0"
    by (simp add: src get_def extend_obj_def pick_def source_defaults_def map_add_def)
  show "get (props src) ''maxzoom'' = JNum 22"
    by (simp add: src get_def extend_obj_def pick_def source_defaults_def map_add_def)
  show "get (props src) ''scheme'' = option_or_default options ''scheme'' (JStr ''xyz'')"
    by (simp add: src get_def extend_obj_def pick_def source_defaults_def map_add_def option_or_default_def
             split: option.splits)
  show "get (props src) ''zoomoffset'' = option_or_default options ''zoomoffset'' (JNum 0)"
    by (simp add: src get_def extend_obj_def pick_def source_defaults_def map_add_def option_or_default_def
             split: option.splits)
  show "u_tileWorkers src = Map.empty" by (simp add: src)
  show "u_deduped src = Map.empty" by (simp add: src)
qed

text \<open>
  C10 as stated fails: with the option \<^verbatim>\<open>{scheme: 'tms'}\<close> the constructor returns and the
  source's scheme is \<^verbatim>\<open>'tms'\<close>, not the default \<^verbatim>\<open>'xyz'\<close>.
\<close>

theorem constructor_scheme_counterexample:
  "\<not> isl (constructor ''streets'' [''scheme'' \<mapsto> JStr ''tms''] demo_dispatcher)
   \<and> get (props (projr (constructor ''streets'' [''scheme'' \<mapsto> JStr ''tms''] demo_dispatcher))) ''scheme''
       = JStr ''tms''
   \<and> JStr ''tms'' \<noteq> JStr ''xyz''"
  by (simp add: constructor_def Let_def get_def extend_obj_def pick_def source_defaults_def map_add_def)

text \<open>The theorem of C10 at \<^verbatim>\<open>{tileSize: 256}\<close>, which throws, and at \<^verbatim>\<open>{zoomoffset: 1}\<close>, which does not.\<close>

theorem constructor_guard_and_defaults_witness:
  "isl (constructor ''streets'' [''tileSize'' \<mapsto> JNum 256] demo_dispatcher)
   \<and> constructor ''streets'' [''tileSize'' \<mapsto> JNum 256] demo_dispatcher
       = Inl (Error ''vector tile sources must have a tileSize of 512'')
   \<and> \<not> isl (constructor ''streets'' [''zoomoffset'' \<mapsto> JNum 1] demo_dispatcher)
   \<and> get (props (projr (constructor ''streets'' [''zoomoffset'' \<mapsto> JNum 1] demo_dispatcher))) ''maxzoom'' = JNum 22
   \<and> get (props (projr (constructor ''streets'' [''zoomoffset'' \<mapsto> JNum 1] demo_dispatcher))) ''zoomoffset'' = JNum 1
   \<and> get (props (projr (constructor ''streets'' [''zoomoffset'' \<mapsto> JNum 1] demo_dispatcher))) ''scheme'' = JStr ''xyz''"
proof -
  have r1: "resolved_tileSize [''tileSize'' \<mapsto> JNum 256] \<noteq> JNum 512"
    by (simp add: resolved_tileSize_def option_or_default_def)
  have r2: "\<not> resolved_tileSize [''zoomoffset'' \<mapsto> JNum 1] \<noteq> JNum 512"
    by (simp add: resolved_tileSize_def option_or_default_def)
  note t1 = constructor_guard_and_defaults [of "''streets''" "[''tileSize'' \<mapsto> JNum 256]" demo_dispatcher]
  note t2 = constructor_guard_and_defaults [of "''streets''" "[''zoomoffset'' \<mapsto> JNum 1]" demo_dispatcher]
  from t2 r2 have n: "\<not> isl (constructor ''streets'' [''zoomoffset'' \<mapsto> JNum 1] demo_dispatcher)" by blast
  then obtain src where s: "constructor ''streets'' [''zoomoffset'' \<mapsto> JNum 1] demo_dispatcher = Inr src"
    by (cases "constructor ''streets'' [''zoomoffset'' \<mapsto> JNum 1] demo_dispatcher") auto
  from t2 s have "get (props src) ''maxzoom'' = JNum 22"
    "get (props src) ''zoomoffset'' = option_or_default [''zoomoffset'' \<mapsto> JNum 1] ''zoomoffset'' (JNum 0)"
    "get (props src) ''scheme'' = option_or_default [''zoomoffset'' \<mapsto> JNum 1] ''scheme'' (JStr ''xyz'')"
    by blast+
  with t1 r1 n s show ?thesis by (simp add: option_or_default_def)
qed

end
